theory Spec2Isabelle
  imports Complex_Main
begin

section \<open>Python values used by \<open>hdate/zmanim.py\<close>\<close>

text \<open>
  Exceptions are values.  \<open>TypeError\<close> is the explicit \<open>raise\<close> of the constructor;
  \<open>ZeroDivisionError\<close> is what Python's float division raises on a zero divisor;
  \<open>AttributeError\<close> is what reading \<open>self.astral_sun\<close> or \<open>self.astral_observer\<close>
  raises on an instance whose constructor did not set them; \<open>KeyError\<close> is what a
  subscript on a dict raises for a missing key.  The \<open>ValueError\<close> of \<open>math.acos\<close> is
  caught inside the solver and never leaves it.
\<close>

datatype py_error = TypeError | ZeroDivisionError | AttributeError | KeyError

text \<open>Sequencing: the first exception raised ends the computation.\<close>

definition and_then :: "py_error + 'a \<Rightarrow> ('a \<Rightarrow> py_error + 'b) \<Rightarrow> py_error + 'b" where
  "and_then r f = (case r of Inl e \<Rightarrow> Inl e | Inr v \<Rightarrow> f v)"

text \<open>
  The values of the dictionary returned by \<open>get_utc_sun_time_full\<close> are
  \<open>Union[int, float]\<close>.  A Python \<open>int\<close> is an unbounded integer.  A Python \<open>float\<close>
  is modelled as a real number and every operation on floats as the exact operation
  on reals: the rounding of each operation to 53 bits is left out, and so are the
  values \<open>inf\<close> and \<open>nan\<close>.  The inputs are taken to be finite floats of the size of a
  coordinate or a minute count, on which no operation overflows.
\<close>

datatype pynum = PyInt int | PyFloat real

fun num_val :: "pynum \<Rightarrow> real" where
  "num_val (PyInt n) = real_of_int n"
| "num_val (PyFloat x) = x"

text \<open>\<open>int(x)\<close> on a float truncates toward zero.\<close>

definition py_int :: "real \<Rightarrow> int" where
  "py_int x = (if 0 \<le> x then \<lfloor>x\<rfloor> else \<lceil>x\<rceil>)"

text \<open>
  \<open>math.pi\<close> is the double nearest to \<open>\<pi>\<close>, the rational
  \<open>884279719003555 / 2 ^ 48\<close> (hexadecimal \<open>0x1.921fb54442d18p+1\<close>); it lies
  just below \<open>\<pi>\<close>.
\<close>

definition math_pi :: real where
  "math_pi = 884279719003555 / 281474976710656"

text \<open>A subscript \<open>d[k]\<close> on a dict, the dict being the list of its items in order.\<close>

definition getitem :: "('k \<times> 'v) list \<Rightarrow> 'k \<Rightarrow> py_error + 'v" where
  "getitem d k = (case map_of d k of None \<Rightarrow> Inl KeyError | Some v \<Rightarrow> Inr v)"

section \<open>Dates and times\<close>

text \<open>
  A \<open>datetime.date\<close> is its proleptic Gregorian ordinal (\<open>date.toordinal()\<close>, day 1 is
  0001-01-01).  A \<open>datetime.datetime\<close> is a count of microseconds since
  0001-01-01T00:00:00: for a naive value the count of its wall-clock fields, for an
  aware value the count of its UTC instant, so that comparing two aware values compares
  the counts.  The wall-clock fields of an aware value are recovered from its instant
  by its time zone; arithmetic on an aware value acts on these fields and not on the
  instant (see \<open>add_timedelta\<close> below).  A \<open>timedelta\<close> is a count of microseconds.
  The range limits of the \<open>datetime\<close> types (years 1 to 9999) are not modelled, and
  the \<open>fold\<close> attribute of a naive value is taken to be 0.
\<close>

type_synonym date = int
type_synonym datetime = int
type_synonym timedelta = int

definition us_per_day :: int where
  "us_per_day = 86400000000"

definition date_of :: "datetime \<Rightarrow> date" where
  "date_of t = t div us_per_day + 1"

definition hour :: "datetime \<Rightarrow> int" where
  "hour t = (t mod us_per_day) div 3600000000"

definition minute :: "datetime \<Rightarrow> int" where
  "minute t = (t mod 3600000000) div 60000000"

definition second :: "datetime \<Rightarrow> int" where
  "second t = (t mod 60000000) div 1000000"

text \<open>\<open>dt.datetime.combine(d, dt.time())\<close>: midnight at the start of day \<open>d\<close>.\<close>

definition combine_midnight :: "date \<Rightarrow> datetime" where
  "combine_midnight d = (d - 1) * us_per_day"

text \<open>Rounding to the nearest integer, ties to even, as \<open>timedelta\<close> rounds microseconds.\<close>

definition round_half_even :: "real \<Rightarrow> int" where
  "round_half_even x =
     (let f = \<lfloor>x\<rfloor>; r = x - of_int f
      in if r < 1 / 2 then f else if 1 / 2 < r then f + 1
         else if even f then f else f + 1)"

text \<open>\<open>dt.timedelta(minutes=value)\<close>.\<close>

fun timedelta_minutes :: "pynum \<Rightarrow> timedelta" where
  "timedelta_minutes (PyInt n) = n * 60000000"
| "timedelta_minutes (PyFloat x) = round_half_even (x * 60000000)"

text \<open>
  The year of an ordinal and the days before a year, as the standard library computes
  them (\<open>_ord2ymd\<close> and \<open>_days_before_year\<close>); \<open>date(y, 1, 1)\<close> has the ordinal
  \<open>days_before_year y + 1\<close>.
\<close>

definition year_of :: "date \<Rightarrow> int" where
  "year_of d =
     (let n = d - 1;
          n400 = n div 146097; n = n mod 146097;
          n100 = n div 36524; n = n mod 36524;
          n4 = n div 1461; n = n mod 1461;
          n1 = n div 365;
          y = n400 * 400 + 1 + n100 * 100 + n4 * 4 + n1
      in if n1 = 4 \<or> n100 = 4 then y - 1 else y)"

definition days_before_year :: "int \<Rightarrow> int" where
  "days_before_year y = (y - 1) * 365 + (y - 1) div 4 - (y - 1) div 100 + (y - 1) div 400"

section \<open>The collaborators of the class\<close>

text \<open>
  \<open>hdate.location.Location\<close>, \<open>hdate.date.HDate\<close> and the \<open>astral\<close> package are not
  part of the module under study; what the module reads of them is taken as given.
  Of a \<open>Location\<close> the module reads the coordinates (degrees, east and north
  positive), the diaspora flag and the time zone, a \<open>tzinfo\<close>.  The time zone is given
  by the two conversions the module makes with it: \<open>timezone\<close> takes the wall-clock
  count of a naive value to the UTC instant of
  \<open>value.replace(tzinfo=timezone).astimezone(utc)\<close>, and \<open>fromutc\<close> takes a UTC instant
  to the wall-clock count of \<open>value.astimezone(timezone)\<close>, the aware value in the zone
  of the location that denotes the same instant.
\<close>

record location =
  latitude :: real
  longitude :: real
  timezone :: "datetime \<Rightarrow> datetime"
  fromutc :: "datetime \<Rightarrow> datetime"
  diaspora :: bool

text \<open>
  \<open>value + delta\<close> and \<open>value - delta\<close> for an aware \<open>value\<close> in the zone of the
  location and a \<open>timedelta\<close>.  Python adds the \<open>timedelta\<close> to the wall-clock fields
  of the value and keeps its \<open>tzinfo\<close>, with \<open>fold\<close> 0: the instant of the sum is the
  one the zone gives to the new fields, which is not the instant of \<open>value\<close> moved by
  \<open>delta\<close> when the UTC offset of the zone changes in between.  \<open>value - delta\<close> is
  \<open>value + (-delta)\<close>.  The \<open>tzinfo\<close> kept is the time zone of the location, which
  is what \<open>astimezone\<close> attaches for a zone of the standard library (\<open>zoneinfo\<close>,
  \<open>datetime.timezone\<close>).
\<close>

definition add_timedelta :: "location \<Rightarrow> datetime \<Rightarrow> timedelta \<Rightarrow> datetime" where
  "add_timedelta loc value delta = timezone loc (fromutc loc value + delta)"

definition sub_timedelta :: "location \<Rightarrow> datetime \<Rightarrow> timedelta \<Rightarrow> datetime" where
  "sub_timedelta loc value delta = add_timedelta loc value (- delta)"

text \<open>Of an \<open>HDate\<close> the module reads two properties.\<close>

record hdate =
  is_shabbat :: bool
  is_yom_tov :: bool

record observer =
  obs_latitude :: real
  obs_longitude :: real

datatype sun_direction = RISING | SETTING

text \<open>Of the dict returned by \<open>astral.sun.sun\<close> the module reads two entries.\<close>

record sun_times =
  sun_sunrise :: datetime
  sun_sunset :: datetime

text \<open>
  The environment of the module: whether \<open>import astral\<close> succeeded, the calendar and
  astronomy collaborators, and the two default argument values of \<open>__init__\<close>, which
  Python evaluates once, when the \<open>def\<close> statement is executed:
  \<open>default_date\<close> is the value \<open>dt.datetime.now()\<close> had at that moment.
\<close>

record env =
  USE_ASTRAL :: bool
  HDate :: "date \<Rightarrow> bool \<Rightarrow> hdate"
  astral_sun_sun :: "observer \<Rightarrow> date \<Rightarrow> sun_times"
  astral_time_of_transit :: "observer \<Rightarrow> date \<Rightarrow> real \<Rightarrow> sun_direction \<Rightarrow> datetime"
  default_date :: datetime
  default_location :: location

definition MAX_LATITUDE_ASTRAL :: real where
  "MAX_LATITUDE_ASTRAL = 50"

section \<open>The class \<open>Zmanim\<close>\<close>

text \<open>The attributes of an instance; the two astral attributes exist only when set.\<close>

record zmanim_self =
  location :: location
  language :: string
  candle_lighting_offset :: int
  havdalah_offset :: int
  date :: date
  time :: datetime
  astral_observer :: "observer option"
  astral_sun :: "sun_times option"

text \<open>
  The \<open>date\<close> argument of the constructor: a \<open>datetime\<close> (its wall-clock fields; any
  \<open>tzinfo\<close> it carries is dropped by \<open>replace(tzinfo=None)\<close>), a \<open>date\<close>, or a value of
  any other type.
\<close>

datatype moment = Datetime datetime | Date date | Other

text \<open>
  \<open>__init__\<close>.  \<open>now\<close> is what \<open>dt.datetime.now()\<close> returns during the call; an omitted
  argument is \<open>None\<close> and takes the default value of the environment.
\<close>

definition init ::
  "env \<Rightarrow> datetime \<Rightarrow> moment option \<Rightarrow> location option \<Rightarrow> string \<Rightarrow> int \<Rightarrow> int
     \<Rightarrow> py_error + zmanim_self" where
  "init E now date_arg location_arg lang cl_offset hd_offset =
     (let date_v = (case date_arg of None \<Rightarrow> Datetime (default_date E) | Some m \<Rightarrow> m);
          loc = (case location_arg of None \<Rightarrow> default_location E | Some l \<Rightarrow> l);
          finish = (\<lambda>d t.
            let obs = \<lparr>obs_latitude = latitude loc, obs_longitude = longitude loc\<rparr>;
                use = (USE_ASTRAL E \<and> \<bar>latitude loc\<bar> \<le> MAX_LATITUDE_ASTRAL)
            in \<lparr>location = loc, language = lang,
                candle_lighting_offset = cl_offset, havdalah_offset = hd_offset,
                date = d, time = timezone loc t,
                astral_observer = (if use then Some obs else None),
                astral_sun = (if use then Some (astral_sun_sun E obs d) else None)\<rparr>)
      in case date_v of
           Datetime t \<Rightarrow> Inr (finish (date_of t) t)
         | Date d \<Rightarrow> Inr (finish d now)
         | Other \<Rightarrow> Inl TypeError)"

definition gday_of_year :: "zmanim_self \<Rightarrow> int" where
  "gday_of_year z = date z - (days_before_year (year_of (date z)) + 1)"

subsection \<open>The low-accuracy solver\<close>

text \<open>The three quantities the solver computes before the hour angle.\<close>

definition eqtime_of :: "real \<Rightarrow> real" where
  "eqtime_of gama =
     229.18 * (0.000075 + 0.001868 * cos gama - 0.032077 * sin gama
               - 0.014615 * cos (2 * gama) - 0.040849 * sin (2 * gama))"

definition decl_of :: "real \<Rightarrow> real" where
  "decl_of gama =
     0.006918 - 0.399912 * cos gama + 0.070257 * sin gama
     - 0.006758 * cos (2 * gama) + 0.000907 * sin (2 * gama)
     - 0.002697 * cos (3 * gama) + 0.00148 * sin (3 * gama)"

definition gama_of :: "zmanim_self \<Rightarrow> real" where
  "gama_of z = 2 * math_pi * ((real_of_int (gday_of_year z) - 1) / 365)"

text \<open>The argument handed to \<open>math.acos\<close>, for a latitude in radians.\<close>

definition acos_arg :: "real \<Rightarrow> real \<Rightarrow> real \<Rightarrow> real" where
  "acos_arg sunrise_angle lat decl =
     cos sunrise_angle / (cos lat * cos decl) - tan lat * tan decl"

text \<open>
  \<open>_get_utc_sun_time_deg\<close>.  The division is evaluated before the tangents, and a zero
  divisor raises; \<open>math.acos\<close> raises \<open>ValueError\<close> exactly outside \<open>[-1, 1]\<close>, which the
  method catches.  The arithmetic is that of the reals: where the exact value handed to
  \<open>int\<close> or to \<open>math.acos\<close> lies within the rounding error of the float computation
  (some \<open>10\<^sup>-\<^sup>1\<^sup>2\<close>) of a whole number, or of 1 or -1, the method can return a
  neighbouring minute, or take the other branch.  \<open>int\<close> raises on \<open>inf\<close> and \<open>nan\<close>,
  which no input of the size of a coordinate produces.
\<close>

definition get_utc_sun_time_deg :: "zmanim_self \<Rightarrow> real \<Rightarrow> py_error + int \<times> int" where
  "get_utc_sun_time_deg z deg =
     (let sunrise_angle = math_pi * deg / 180;
          gama = gama_of z;
          eqtime = eqtime_of gama;
          decl = decl_of gama;
          lat = math_pi * latitude (location z) / 180
      in if cos lat * cos decl = 0 then Inl ZeroDivisionError
         else let x = acos_arg sunrise_angle lat decl
              in if x < - 1 \<or> 1 < x then Inr (- 720, - 720)
                 else let hour_angle = 720 * arccos x / math_pi;
                          lon = longitude (location z)
                      in Inr (py_int (720 - 4 * lon - hour_angle - eqtime),
                              py_int (720 - 4 * lon + hour_angle - eqtime)))"

subsection \<open>The astral branch\<close>

definition datetime_to_minutes_offest :: "zmanim_self \<Rightarrow> datetime \<Rightarrow> int" where
  "datetime_to_minutes_offest z t =
     hour t * 60 + minute t + (if 30 \<le> second t then 1 else 0)
     + ((date_of t - date z) * 86400) div 60"

definition get_utc_time_of_transit ::
  "env \<Rightarrow> zmanim_self \<Rightarrow> real \<Rightarrow> bool \<Rightarrow> py_error + int" where
  "get_utc_time_of_transit E z zenith rising =
     (case astral_observer z of
        None \<Rightarrow> Inl AttributeError
      | Some obs \<Rightarrow>
          Inr (datetime_to_minutes_offest z
                 (astral_time_of_transit E obs (date z) zenith
                    (if rising then RISING else SETTING))))"

subsection \<open>The full table of times\<close>

text \<open>The dict literal of \<open>get_utc_sun_time_full\<close>, from the six solar markers.\<close>

definition zmanim_table ::
  "int \<Rightarrow> int \<Rightarrow> int \<Rightarrow> int \<Rightarrow> int \<Rightarrow> int \<Rightarrow> (string \<times> pynum) list" where
  "zmanim_table sunrise sunset first_light talit first_stars three_stars =
     (let sun_hour = (sunset - sunrise) div 12;
          midday = (sunset + sunrise) div 2;
          mga_sunhour = (real_of_int midday - real_of_int first_light) / 6
      in [(''sunrise'', PyInt sunrise),
          (''sunset'', PyInt sunset),
          (''sun_hour'', PyInt sun_hour),
          (''midday'', PyInt midday),
          (''first_light'', PyInt first_light),
          (''talit'', PyInt talit),
          (''first_stars'', PyInt first_stars),
          (''three_stars'', PyInt three_stars),
          (''plag_mincha'', PyFloat (real_of_int sunset - 1.25 * real_of_int sun_hour)),
          (''stars_out'', PyFloat (real_of_int sunset + 18 * real_of_int sun_hour / 60)),
          (''small_mincha'', PyFloat (real_of_int sunrise + 9.5 * real_of_int sun_hour)),
          (''big_mincha'', PyFloat (real_of_int sunrise + 6.5 * real_of_int sun_hour)),
          (''big_mincha_30'', PyInt (midday + 30)),
          (''mga_end_shma'', PyFloat (real_of_int first_light + mga_sunhour * 3)),
          (''gra_end_shma'', PyFloat (real_of_int sunrise + real_of_int sun_hour * 3)),
          (''mga_end_tfila'', PyFloat (real_of_int first_light + mga_sunhour * 4)),
          (''gra_end_tfila'', PyFloat (real_of_int sunrise + real_of_int sun_hour * 4)),
          (''rabbeinu_tam'', PyFloat (real_of_int sunset + real_of_int sun_hour * 1.2)),
          (''midnight'', PyFloat (real_of_int midday + 12 * 60))])"

text \<open>The condition under which \<open>get_utc_sun_time_full\<close> takes its first branch.\<close>

definition low_accuracy_branch :: "env \<Rightarrow> zmanim_self \<Rightarrow> bool" where
  "low_accuracy_branch E z \<longleftrightarrow>
     \<not> USE_ASTRAL E \<or> MAX_LATITUDE_ASTRAL < \<bar>latitude (location z)\<bar>"

text \<open>The six markers of the first branch, by five calls of the solver.\<close>

definition sun_markers_low ::
  "zmanim_self \<Rightarrow> py_error + (string \<times> pynum) list" where
  "sun_markers_low z =
     and_then (get_utc_sun_time_deg z 90.833) (\<lambda>(sunrise, sunset).
     and_then (get_utc_sun_time_deg z 106.1) (\<lambda>(first_light, _).
     and_then (get_utc_sun_time_deg z 101.0) (\<lambda>(talit, _).
     and_then (get_utc_sun_time_deg z 96.0) (\<lambda>(_, first_stars).
     and_then (get_utc_sun_time_deg z 98.5) (\<lambda>(_, three_stars).
       Inr (zmanim_table sunrise sunset first_light talit first_stars three_stars))))))"

text \<open>The six markers of the second branch, from the astral attributes.\<close>

definition sun_markers_astral ::
  "env \<Rightarrow> zmanim_self \<Rightarrow> py_error + (string \<times> pynum) list" where
  "sun_markers_astral E z =
     (case astral_sun z of
        None \<Rightarrow> Inl AttributeError
      | Some s \<Rightarrow>
          (let sunrise = datetime_to_minutes_offest z (sun_sunrise s);
               sunset = datetime_to_minutes_offest z (sun_sunset s)
           in and_then (get_utc_time_of_transit E z 106.1 True) (\<lambda>first_light.
              and_then (get_utc_time_of_transit E z 101.0 True) (\<lambda>talit.
              and_then (get_utc_time_of_transit E z 96.0 False) (\<lambda>first_stars.
              and_then (get_utc_time_of_transit E z 98.5 False) (\<lambda>three_stars.
                Inr (zmanim_table sunrise sunset first_light talit
                       first_stars three_stars)))))))"

definition get_utc_sun_time_full ::
  "env \<Rightarrow> zmanim_self \<Rightarrow> py_error + (string \<times> pynum) list" where
  "get_utc_sun_time_full E z =
     (if low_accuracy_branch E z then sun_markers_low z else sun_markers_astral E z)"

text \<open>
  \<open>utc_zmanim\<close> and \<open>zmanim\<close>.  \<open>astimezone\<close> changes the presentation of an aware
  value and keeps its instant, so the second dict has the counts of the first; its
  values are in the zone of the location, with the wall-clock fields \<open>fromutc\<close> gives.
\<close>

definition utc_zmanim :: "env \<Rightarrow> zmanim_self \<Rightarrow> py_error + (string \<times> datetime) list" where
  "utc_zmanim E z =
     (let basetime = combine_midnight (date z)
      in and_then (get_utc_sun_time_full E z) (\<lambda>d.
           Inr (map (\<lambda>(key, value). (key, basetime + timedelta_minutes value)) d)))"

definition zmanim :: "env \<Rightarrow> zmanim_self \<Rightarrow> py_error + (string \<times> datetime) list" where
  "zmanim E z =
     and_then (utc_zmanim E z) (\<lambda>d. Inr (map (\<lambda>(key, value). (key, value)) d))"

subsection \<open>Candle lighting, havdalah and the status of the instant\<close>

definition today :: "env \<Rightarrow> zmanim_self \<Rightarrow> hdate" where
  "today E z = HDate E (date z) (diaspora (location z))"

definition tomorrow :: "env \<Rightarrow> zmanim_self \<Rightarrow> hdate" where
  "tomorrow E z = HDate E (date z + 1) (diaspora (location z))"

definition havdalah_datetime :: "env \<Rightarrow> zmanim_self \<Rightarrow> py_error + datetime" where
  "havdalah_datetime E z =
     (if havdalah_offset z = 0
      then and_then (zmanim E z) (\<lambda>d. getitem d ''three_stars'')
      else and_then (zmanim E z) (\<lambda>d. and_then (getitem d ''sunset'') (\<lambda>s.
             Inr (add_timedelta (location z) s
                    (timedelta_minutes (PyInt (havdalah_offset z)))))))"

definition candle_lighting :: "env \<Rightarrow> zmanim_self \<Rightarrow> py_error + datetime option" where
  "candle_lighting E z =
     (if (is_yom_tov (today E z) \<or> is_shabbat (today E z)) \<and> is_yom_tov (tomorrow E z)
      then and_then (havdalah_datetime E z) (\<lambda>t. Inr (Some t))
      else if is_shabbat (tomorrow E z) \<or> is_yom_tov (tomorrow E z)
      then and_then (zmanim E z) (\<lambda>d. and_then (getitem d ''sunset'') (\<lambda>s.
             Inr (Some (sub_timedelta (location z) s
                          (timedelta_minutes (PyInt (candle_lighting_offset z)))))))
      else Inr None)"

definition havdalah :: "env \<Rightarrow> zmanim_self \<Rightarrow> py_error + datetime option" where
  "havdalah E z =
     (if is_shabbat (today E z) \<or> is_yom_tov (today E z)
      then if is_shabbat (tomorrow E z) \<or> is_yom_tov (tomorrow E z)
           then Inr None
           else and_then (havdalah_datetime E z) (\<lambda>t. Inr (Some t))
      else Inr None)"

text \<open>
  A condition \<open>a and self.p is not None and (self.time \<sim> self.p)\<close>: the property
  \<open>p\<close> is read only when \<open>a\<close> holds.
\<close>

definition guarded ::
  "bool \<Rightarrow> (py_error + datetime option) \<Rightarrow> (datetime \<Rightarrow> bool) \<Rightarrow> py_error + bool" where
  "guarded a p cmp =
     (if a then and_then p (\<lambda>v. case v of None \<Rightarrow> Inr False | Some t \<Rightarrow> Inr (cmp t))
      else Inr False)"

definition issur_melacha_in_effect :: "env \<Rightarrow> zmanim_self \<Rightarrow> py_error + bool" where
  "issur_melacha_in_effect E z =
     (if (is_shabbat (today E z) \<or> is_yom_tov (today E z))
         \<and> (is_shabbat (tomorrow E z) \<or> is_yom_tov (tomorrow E z))
      then Inr True
      else and_then
             (guarded (is_shabbat (today E z) \<or> is_yom_tov (today E z))
                (havdalah E z) (\<lambda>t. time z < t))
             (\<lambda>c. if c then Inr True
                  else and_then
                         (guarded (is_shabbat (tomorrow E z) \<or> is_yom_tov (tomorrow E z))
                            (candle_lighting E z) (\<lambda>t. t \<le> time z))
                         (\<lambda>c. if c then Inr True else Inr False)))"

definition erev_shabbat_chag :: "env \<Rightarrow> zmanim_self \<Rightarrow> py_error + bool" where
  "erev_shabbat_chag E z =
     and_then (candle_lighting E z) (\<lambda>c.
       case c of
         None \<Rightarrow> Inr False
       | Some _ \<Rightarrow>
           if (is_shabbat (tomorrow E z) \<or> is_yom_tov (tomorrow E z))
              \<and> (\<not> is_shabbat (today E z) \<and> \<not> is_yom_tov (today E z))
           then and_then (candle_lighting E z) (\<lambda>c'.
                  case c' of None \<Rightarrow> Inr False
                  | Some t \<Rightarrow> if time z < t then Inr True else Inr False)
           else Inr False)"

definition motzei_shabbat_chag :: "env \<Rightarrow> zmanim_self \<Rightarrow> py_error + bool" where
  "motzei_shabbat_chag E z =
     and_then (havdalah E z) (\<lambda>h.
       case h of
         None \<Rightarrow> Inr False
       | Some _ \<Rightarrow>
           if (is_shabbat (today E z) \<or> is_yom_tov (today E z))
              \<and> (is_shabbat (tomorrow E z) \<or> is_yom_tov (tomorrow E z))
           then Inr False
           else if is_shabbat (today E z) \<or> is_yom_tov (today E z)
           then and_then (havdalah E z) (\<lambda>h'.
                  case h' of None \<Rightarrow> Inr False
                  | Some t \<Rightarrow> if t < time z then Inr True else Inr False)
           else Inr False)"

text \<open>
  A crossing of the altitude exists: the division is defined and \<open>math.acos\<close> accepts
  its argument.  Otherwise the sun never reaches the altitude on that day.
\<close>

definition crossing_exists :: "zmanim_self \<Rightarrow> real \<Rightarrow> bool" where
  "crossing_exists z deg \<longleftrightarrow>
     (let lat = math_pi * latitude (location z) / 180;
          decl = decl_of (gama_of z);
          x = acos_arg (math_pi * deg / 180) lat decl
      in cos lat * cos decl \<noteq> 0 \<and> - 1 \<le> x \<and> x \<le> 1)"

text \<open>
  A crossing clear of the limits of solvability: the divisor is at least a thousandth
  (the latitude is not within some six hundredths of a degree of a pole) and the
  argument of \<open>math.acos\<close> is at most 0.999 in absolute value (the hour angle lies
  between some 10 and 710 minutes).  At such an input the rounding of the float
  operations cannot change the branch the solver takes.
\<close>

definition crossing_clear :: "zmanim_self \<Rightarrow> real \<Rightarrow> bool" where
  "crossing_clear z deg \<longleftrightarrow>
     (let lat = math_pi * latitude (location z) / 180;
          decl = decl_of (gama_of z);
          x = acos_arg (math_pi * deg / 180) lat decl
      in 1 / 1000 \<le> cos lat * cos decl \<and> \<bar>x\<bar> \<le> 999 / 1000)"


section \<open>Concrete environments and instances\<close>

text \<open>
  Petah Tikva with a fixed offset of three hours, a calendar in which day 737175
  (Friday 2019-04-26, the seventh day of Pesach) is a Yom Tov and every Saturday a
  Shabbat, and an astronomy collaborator that puts sunrise at 03:09 UTC, sunset at
  16:12 UTC and the four twilight markers at fixed minutes of every day.
\<close>

definition israel_tz :: "datetime \<Rightarrow> datetime" where
  "israel_tz t = t - 10800000000"

definition petah_tikva :: location where
  "petah_tikva = \<lparr>latitude = 32.08707, longitude = 34.88747,
                   timezone = israel_tz, fromutc = (\<lambda>t. t + 10800000000),
                   diaspora = False\<rparr>"

definition sample_env :: env where
  "sample_env =
     \<lparr>USE_ASTRAL = True,
      HDate = (\<lambda>d dia. \<lparr>is_shabbat = (d mod 7 = 6), is_yom_tov = (d = 737175)\<rparr>),
      astral_sun_sun = (\<lambda>obs d.
        \<lparr>sun_sunrise = combine_midnight d + 189 * 60000000,
         sun_sunset = combine_midnight d + 972 * 60000000\<rparr>),
      astral_time_of_transit = (\<lambda>obs d zenith direction.
        combine_midnight d
        + (case direction of
             RISING \<Rightarrow> if 106 \<le> zenith then 112 else 138
           | SETTING \<Rightarrow> if 98 \<le> zenith then 1013 else 998) * 60000000),
      default_date = 63681984000000000,
      default_location = petah_tikva\<rparr>"

text \<open>The instance the constructor builds in that environment for a \<open>datetime\<close>.\<close>

definition sample_instance :: "datetime \<Rightarrow> zmanim_self" where
  "sample_instance t =
     \<lparr>location = petah_tikva, language = ''hebrew'',
      candle_lighting_offset = 18, havdalah_offset = 0,
      date = date_of t, time = israel_tz t,
      astral_observer = Some \<lparr>obs_latitude = 32.08707, obs_longitude = 34.88747\<rparr>,
      astral_sun = Some \<lparr>sun_sunrise = combine_midnight (date_of t) + 189 * 60000000,
                         sun_sunset = combine_midnight (date_of t) + 972 * 60000000\<rparr>\<rparr>"






text \<open>
  An instance on the meridian given by \<open>lon\<close> at latitude \<open>lat\<close> on 2019-01-02 (day
  737061, for which \<open>gday_of_year\<close> is 1), as the constructor builds it without astral.
\<close>

definition january_instance :: "real \<Rightarrow> real \<Rightarrow> zmanim_self" where
  "january_instance lat lon =
     \<lparr>location = \<lparr>latitude = lat, longitude = lon, timezone = (\<lambda>t. t),
                   fromutc = (\<lambda>t. t), diaspora = False\<rparr>,
      language = ''hebrew'',
      candle_lighting_offset = 18, havdalah_offset = 0,
      date = 737061, time = 63681984000000000,
      astral_observer = None, astral_sun = None\<rparr>"

section \<open>A solvable input whose sunrise is -720\<close>

text \<open>
  The Ross Sea on the antimeridian, 74.943 degrees south and 180 degrees east, on
  2019-11-02 (day 737365, for which \<open>gday_of_year\<close> is 305), without astral.
\<close>

definition ross_sea_instance :: zmanim_self where
  "ross_sea_instance =
     \<lparr>location = \<lparr>latitude = - 74.943, longitude = 180,
                   timezone = (\<lambda>t. t - 43200000000),
                   fromutc = (\<lambda>t. t + 43200000000), diaspora = False\<rparr>,
      language = ''hebrew'',
      candle_lighting_offset = 18, havdalah_offset = 0,
      date = 737365, time = 63708249600000000,
      astral_observer = None, astral_sun = None\<rparr>"

text \<open>The same instance two thousandths of a degree further west.\<close>

definition ross_sea_west :: zmanim_self where
  "ross_sea_west =
     ross_sea_instance\<lparr>location := (location ross_sea_instance)\<lparr>longitude := 179.998\<rparr>\<rparr>"

text \<open>
  The quantities of the solver at that input: the angle \<open>gama\<close> of day 305, the latitude
  and the altitude of sunrise in radians, and the hour angles of 703.63 and 704.37
  minutes in radians, between which the hour angle of that sunrise lies.
\<close>

definition gama_nov2 :: real where
  "gama_nov2 = 608 * math_pi / 365"

definition lat_ross :: real where
  "lat_ross = math_pi * (- 74.943) / 180"

definition angle_sunrise :: real where
  "angle_sunrise = math_pi * 90.833 / 180"

definition theta_lo :: real where
  "theta_lo = math_pi * 703.63 / 720"

definition theta_hi :: real where
  "theta_hi = math_pi * 704.37 / 720"

text \<open>
  The Taylor polynomials of cosine (degree 14) and of sine (degree 15, divided by the
  argument) in Horner form, as functions of the square of the argument.
\<close>

definition cos_horner :: "real \<Rightarrow> real" where
  "cos_horner y = 1 - y / 2 * (1 - y / 12 * (1 - y / 30 * (1 - y / 56 *
     (1 - y / 90 * (1 - y / 132 * (1 - y / 182))))))"

definition sin_horner :: "real \<Rightarrow> real" where
  "sin_horner y = 1 - y / 6 * (1 - y / 20 * (1 - y / 42 * (1 - y / 72 *
     (1 - y / 110 * (1 - y / 156 * (1 - y / 210))))))"

section \<open>Basic facts\<close>

lemma and_then_Inr [simp]: "and_then (Inr v) f = f v"
  by (simp add: and_then_def)

lemma and_then_Inl [simp]: "and_then (Inl e) f = Inl e"
  by (simp add: and_then_def)

lemma arctan_partial_sums:
  fixes x :: real
  assumes "0 \<le> x" "x \<le> 1"
  shows "(\<Sum>i<2 * n. (- 1) ^ i * (1 / real (i * 2 + 1) * x ^ (i * 2 + 1))) \<le> arctan x"
    and "arctan x \<le> (\<Sum>i<2 * n + 1. (- 1) ^ i * (1 / real (i * 2 + 1) * x ^ (i * 2 + 1)))"
proof -
  let ?a = "\<lambda>n. 1 / real (n * 2 + 1) * x ^ (n * 2 + 1)"
  have zero: "?a \<longlonglongrightarrow> 0"
    using assms by (intro zeroseq_arctan_series) simp
  have pos: "0 \<le> ?a k" for k
    using assms by simp
  have mono: "?a (Suc k) \<le> ?a k" for k
  proof (rule mult_mono)
    show "1 / real (Suc k * 2 + 1) \<le> 1 / real (k * 2 + 1)"
      by (rule frac_le) simp_all
    show "x ^ (Suc k * 2 + 1) \<le> x ^ (k * 2 + 1)"
      using assms by (intro power_decreasing) simp_all
  qed (use assms in simp_all)
  have series: "arctan x = (\<Sum>k. (- 1) ^ k * ?a k)"
    using assms by (intro arctan_series) simp
  from summable_Leibniz'(2) [of ?a, OF zero pos mono]
  show "(\<Sum>i<2 * n. (- 1) ^ i * ?a i) \<le> arctan x"
    unfolding series by simp
  from summable_Leibniz'(4) [of ?a, OF zero pos mono]
  show "arctan x \<le> (\<Sum>i<2 * n + 1. (- 1) ^ i * ?a i)"
    unfolding series by simp
qed

lemma math_pi_less_pi: "math_pi < pi"
proof -
  have lo: "(\<Sum>i<2 * 6. (- 1) ^ i * (1 / real (i * 2 + 1) * (1 / 5) ^ (i * 2 + 1)))
            \<le> arctan (1 / 5 :: real)"
    by (rule arctan_partial_sums(1)) simp_all
  have hi: "arctan (1 / 239 :: real)
            \<le> (\<Sum>i<2 * 1 + 1. (- 1) ^ i * (1 / real (i * 2 + 1) * (1 / 239) ^ (i * 2 + 1)))"
    by (rule arctan_partial_sums(2)) simp_all
  have "math_pi / 4 <
        4 * (\<Sum>i<2 * 6. (- 1) ^ i * (1 / real (i * 2 + 1) * (1 / 5) ^ (i * 2 + 1)))
        - (\<Sum>i<2 * 1 + 1. (- 1) ^ i * (1 / real (i * 2 + 1) * (1 / 239 :: real) ^ (i * 2 + 1)))"
    unfolding math_pi_def
    by (simp add: lessThan_nat_numeral power_divide)
  also have "\<dots> \<le> 4 * arctan (1 / 5) - arctan (1 / 239)"
    using lo hi by linarith
  also have "\<dots> = pi / 4"
    by (rule machin [symmetric])
  finally show ?thesis by simp
qed

lemma math_pi_pos: "0 < math_pi"
  by (simp add: math_pi_def)

lemma abs_decl_of: "\<bar>decl_of g\<bar> < 1"
proof -
  have b: "- 1 \<le> cos g" "cos g \<le> 1" "- 1 \<le> sin g" "sin g \<le> 1"
    "- 1 \<le> cos (2 * g)" "cos (2 * g) \<le> 1" "- 1 \<le> sin (2 * g)" "sin (2 * g) \<le> 1"
    "- 1 \<le> cos (3 * g)" "cos (3 * g) \<le> 1" "- 1 \<le> sin (3 * g)" "sin (3 * g) \<le> 1"
    by (rule cos_ge_minus_one cos_le_one sin_ge_minus_one sin_le_one)+
  show ?thesis
    unfolding decl_of_def abs_less_iff
    by (intro conjI; simp; insert b; linarith)
qed

lemma cos_decl_of_pos: "0 < cos (decl_of g)"
proof -
  have "\<bar>decl_of g\<bar> < 1" by (rule abs_decl_of)
  moreover have "1 \<le> pi / 2" using pi_ge_two by simp
  ultimately show ?thesis
    by (intro cos_gt_zero_pi) (simp_all add: abs_less_iff)
qed

lemma cos_latitude_pos:
  assumes "\<bar>lat\<bar> \<le> 90"
  shows "0 < cos (math_pi * lat / 180)"
proof -
  have "\<bar>math_pi * lat / 180\<bar> = math_pi * \<bar>lat\<bar> / 180"
    using math_pi_pos by (simp add: abs_mult)
  also have "\<dots> \<le> math_pi * 90 / 180"
    using assms math_pi_pos by simp
  also have "\<dots> < pi / 2"
    using math_pi_less_pi by simp
  finally show ?thesis
    by (intro cos_gt_zero_pi) (simp_all add: abs_less_iff)
qed

text \<open>The solver returns a pair whenever the latitude is one of the globe.\<close>

lemma get_utc_sun_time_deg_total:
  assumes "\<bar>latitude (location z)\<bar> \<le> 90"
  shows "\<exists>r s. get_utc_sun_time_deg z deg = Inr (r, s)"
proof -
  have "cos (math_pi * latitude (location z) / 180) * cos (decl_of (gama_of z)) \<noteq> 0"
    using cos_latitude_pos [OF assms] cos_decl_of_pos [of "gama_of z"] by simp
  then show ?thesis
    by (simp add: get_utc_sun_time_deg_def Let_def)
qed

lemma sun_markers_low_total:
  assumes "\<bar>latitude (location z)\<bar> \<le> 90"
  shows "\<exists>sr ss fl ta fs ts. sun_markers_low z = Inr (zmanim_table sr ss fl ta fs ts)"
proof -
  obtain sr ss where 1: "get_utc_sun_time_deg z 90.833 = Inr (sr, ss)"
    using get_utc_sun_time_deg_total [OF assms] by blast
  obtain fl x2 where 2: "get_utc_sun_time_deg z 106.1 = Inr (fl, x2)"
    using get_utc_sun_time_deg_total [OF assms] by blast
  obtain ta x3 where 3: "get_utc_sun_time_deg z 101.0 = Inr (ta, x3)"
    using get_utc_sun_time_deg_total [OF assms] by blast
  obtain x4 fs where 4: "get_utc_sun_time_deg z 96.0 = Inr (x4, fs)"
    using get_utc_sun_time_deg_total [OF assms] by blast
  obtain x5 ts where 5: "get_utc_sun_time_deg z 98.5 = Inr (x5, ts)"
    using get_utc_sun_time_deg_total [OF assms] by blast
  show ?thesis
    unfolding sun_markers_low_def 1 2 3 4 5 by simp blast
qed

section \<open>The table of times of a constructed instance\<close>

lemma init_astral_attrs:
  assumes "init E now a l lang c h = Inr z"
  shows "astral_sun z = None \<longleftrightarrow> low_accuracy_branch E z"
    and "astral_observer z = None \<longleftrightarrow> low_accuracy_branch E z"
  using assms
  by (auto simp: init_def Let_def low_accuracy_branch_def
           split: option.splits moment.splits if_splits)

lemma sun_markers_astral_total:
  assumes "astral_sun z \<noteq> None" "astral_observer z \<noteq> None"
  shows "\<exists>sr ss fl ta fs ts. sun_markers_astral E z = Inr (zmanim_table sr ss fl ta fs ts)"
proof -
  obtain s obs where "astral_sun z = Some s" "astral_observer z = Some obs"
    using assms by auto
  then show ?thesis
    by (simp add: sun_markers_astral_def get_utc_time_of_transit_def Let_def) blast
qed

lemma get_utc_sun_time_full_total:
  assumes "init E now a l lang c h = Inr z" "\<bar>latitude (location z)\<bar> \<le> 90"
  shows "\<exists>sr ss fl ta fs ts. get_utc_sun_time_full E z = Inr (zmanim_table sr ss fl ta fs ts)"
proof (cases "low_accuracy_branch E z")
  case True
  then show ?thesis
    using sun_markers_low_total [OF assms(2)] by (simp add: get_utc_sun_time_full_def)
next
  case False
  then have "astral_sun z \<noteq> None" "astral_observer z \<noteq> None"
    using init_astral_attrs [OF assms(1)] by simp_all
  then show ?thesis
    using False sun_markers_astral_total [of z E] by (simp add: get_utc_sun_time_full_def)
qed

lemma zmanim_of_table:
  assumes "get_utc_sun_time_full E z = Inr (zmanim_table sr ss fl ta fs ts)"
  shows "\<exists>d. zmanim E z = Inr d
           \<and> map_of d ''sunset'' = Some (combine_midnight (date z) + ss * 60000000)
           \<and> map_of d ''three_stars'' = Some (combine_midnight (date z) + ts * 60000000)"
  using assms
  by (simp add: zmanim_def utc_zmanim_def zmanim_table_def Let_def)

lemma zmanim_total:
  assumes "init E now a l lang c h = Inr z" "\<bar>latitude (location z)\<bar> \<le> 90"
  shows "\<exists>d ss ts. zmanim E z = Inr d
           \<and> map_of d ''sunset'' = Some ss \<and> map_of d ''three_stars'' = Some ts"
  using get_utc_sun_time_full_total [OF assms] zmanim_of_table by blast

section \<open>Havdalah\<close>




text \<open>Unfolding the concrete environment and the astral branch.\<close>

lemmas sample_defs =
  sample_env_def petah_tikva_def israel_tz_def sample_instance_def init_def Let_def
  MAX_LATITUDE_ASTRAL_def date_of_def us_per_day_def combine_midnight_def

lemmas zmanim_defs =
  zmanim_def utc_zmanim_def get_utc_sun_time_full_def low_accuracy_branch_def
  add_timedelta_def sub_timedelta_def
  sun_markers_astral_def get_utc_time_of_transit_def datetime_to_minutes_offest_def
  hour_def minute_def second_def zmanim_table_def getitem_def today_def tomorrow_def

lemma init_sample_instance:
  "init sample_env now (Some (Datetime t)) (Some petah_tikva) ''hebrew'' 18 0
   = Inr (sample_instance t)"
  by (simp add: sample_defs)

lemma sample_instance_latitude: "\<bar>latitude (location (sample_instance t))\<bar> \<le> 90"
  by (simp add: sample_defs)




text \<open>
  Where the zone of the location has one UTC offset throughout, adding on the wall
  clock is adding to the instant.
\<close>

lemma add_timedelta_fixed_offset:
  assumes "\<And>t. fromutc loc t = t + k" "\<And>t. timezone loc t = t - k"
  shows "add_timedelta loc value delta = value + delta"
    and "sub_timedelta loc value delta = value - delta"
  using assms by (simp_all add: add_timedelta_def sub_timedelta_def)


lemma havdalah_datetime_value:
  assumes "zmanim E z = Inr d" "map_of d ''sunset'' = Some ss" "map_of d ''three_stars'' = Some ts"
  shows "havdalah_datetime E z =
           Inr (if havdalah_offset z = 0 then ts
                else add_timedelta (location z) ss (havdalah_offset z * 60000000))"
  using assms by (simp add: havdalah_datetime_def getitem_def)

lemma candle_lighting_value:
  assumes "zmanim E z = Inr d" "map_of d ''sunset'' = Some ss" "map_of d ''three_stars'' = Some ts"
  shows "candle_lighting E z =
           Inr (if (is_yom_tov (today E z) \<or> is_shabbat (today E z)) \<and> is_yom_tov (tomorrow E z)
                then Some (if havdalah_offset z = 0 then ts
                           else add_timedelta (location z) ss
                                  (havdalah_offset z * 60000000))
                else if is_shabbat (tomorrow E z) \<or> is_yom_tov (tomorrow E z)
                then Some (sub_timedelta (location z) ss
                             (candle_lighting_offset z * 60000000))
                else None)"
  using assms havdalah_datetime_value [OF assms]
  by (simp add: candle_lighting_def getitem_def)

lemma havdalah_value:
  assumes "zmanim E z = Inr d" "map_of d ''sunset'' = Some ss" "map_of d ''three_stars'' = Some ts"
  shows "havdalah E z =
           Inr (if (is_shabbat (today E z) \<or> is_yom_tov (today E z))
                   \<and> \<not> (is_shabbat (tomorrow E z) \<or> is_yom_tov (tomorrow E z))
                then Some (if havdalah_offset z = 0 then ts
                           else add_timedelta (location z) ss
                                  (havdalah_offset z * 60000000))
                else None)"
  using havdalah_datetime_value [OF assms] by (simp add: havdalah_def)

section \<open>Issur melacha\<close>

text \<open>
  Claim C1.  For an instance built by the constructor at a latitude of the globe,
  \<open>issur_melacha_in_effect\<close> returns true exactly when today and tomorrow are both rest
  days, or today is a rest day and \<open>havdalah\<close> is not \<open>None\<close> and the instant is
  strictly before it, or tomorrow is a rest day and \<open>candle_lighting\<close> is not \<open>None\<close>
  and the instant is at or after it; in every other case it returns false.
\<close>

theorem issur_melacha_in_effect_iff:
  assumes "init E now a l lang c h = Inr z" "\<bar>latitude (location z)\<bar> \<le> 90"
  shows "\<exists>hv cl. havdalah E z = Inr hv \<and> candle_lighting E z = Inr cl
           \<and> issur_melacha_in_effect E z =
               Inr (((is_shabbat (today E z) \<or> is_yom_tov (today E z))
                      \<and> (is_shabbat (tomorrow E z) \<or> is_yom_tov (tomorrow E z)))
                    \<or> ((is_shabbat (today E z) \<or> is_yom_tov (today E z))
                        \<and> (case hv of None \<Rightarrow> False | Some t \<Rightarrow> time z < t))
                    \<or> ((is_shabbat (tomorrow E z) \<or> is_yom_tov (tomorrow E z))
                        \<and> (case cl of None \<Rightarrow> False | Some t \<Rightarrow> t \<le> time z)))"
proof -
  obtain d ss ts where d: "zmanim E z = Inr d" "map_of d ''sunset'' = Some ss"
      "map_of d ''three_stars'' = Some ts"
    using zmanim_total [OF assms] by blast
  note hv = havdalah_value [OF d] and cl = candle_lighting_value [OF d]
  have "issur_melacha_in_effect E z =
      Inr (((is_shabbat (today E z) \<or> is_yom_tov (today E z))
             \<and> (is_shabbat (tomorrow E z) \<or> is_yom_tov (tomorrow E z)))
           \<or> ((is_shabbat (today E z) \<or> is_yom_tov (today E z))
               \<and> (case projr (havdalah E z) of None \<Rightarrow> False | Some t \<Rightarrow> time z < t))
           \<or> ((is_shabbat (tomorrow E z) \<or> is_yom_tov (tomorrow E z))
               \<and> (case projr (candle_lighting E z) of None \<Rightarrow> False | Some t \<Rightarrow> t \<le> time z)))"
    unfolding issur_melacha_in_effect_def guarded_def hv cl
    by (cases "is_shabbat (today E z)"; cases "is_yom_tov (today E z)";
        cases "is_shabbat (tomorrow E z)"; cases "is_yom_tov (tomorrow E z)") simp_all
  then show ?thesis
    unfolding hv cl by simp
qed

text \<open>
  On Thursday 2019-04-25 at 19:30, the eve of the Yom Tov of the concrete environment,
  there is no havdalah, candle lighting was at 15:54 UTC, and the instant, 16:30 UTC,
  is after it: the prohibition is in effect.
\<close>

theorem issur_melacha_in_effect_iff_witness:
  "init sample_env 0 (Some (Datetime 63691817400000000)) (Some petah_tikva) ''hebrew'' 18 0
     = Inr (sample_instance 63691817400000000)
   \<and> \<bar>latitude (location (sample_instance 63691817400000000))\<bar> \<le> 90
   \<and> havdalah sample_env (sample_instance 63691817400000000) = Inr None
   \<and> candle_lighting sample_env (sample_instance 63691817400000000)
     = Inr (Some 63691804440000000)
   \<and> issur_melacha_in_effect sample_env (sample_instance 63691817400000000) = Inr True"
proof -
  let ?z = "sample_instance 63691817400000000"
  have hv: "havdalah sample_env ?z = Inr None"
    by (simp add: havdalah_def sample_defs today_def tomorrow_def)
  have cl: "candle_lighting sample_env ?z = Inr (Some 63691804440000000)"
    by (simp add: candle_lighting_def sample_defs zmanim_defs)
  have flags: "is_yom_tov (tomorrow sample_env ?z)" "time ?z = 63691806600000000"
    by (simp_all add: sample_defs tomorrow_def)
  from issur_melacha_in_effect_iff [OF init_sample_instance [of 0 63691817400000000]
      sample_instance_latitude]
  have "issur_melacha_in_effect sample_env ?z = Inr True"
    unfolding hv cl using flags by simp
  then show ?thesis
    using hv cl init_sample_instance sample_instance_latitude by simp
qed

section \<open>Motzei Shabbat or chag\<close>

text \<open>
  Claim C9.  For an instance built by the constructor at a latitude of the globe,
  \<open>motzei_shabbat_chag\<close> returns true exactly when \<open>havdalah\<close> is not \<open>None\<close> and the
  instant is strictly after it.  The two further tests of the method change nothing:
  when \<open>havdalah\<close> is not \<open>None\<close>, today is a rest day and tomorrow is not.
\<close>

theorem motzei_shabbat_chag_iff:
  assumes "init E now a l lang c h = Inr z" "\<bar>latitude (location z)\<bar> \<le> 90"
  shows "\<exists>hv. havdalah E z = Inr hv
           \<and> motzei_shabbat_chag E z = Inr (case hv of None \<Rightarrow> False | Some t \<Rightarrow> t < time z)
           \<and> (hv \<noteq> None \<longrightarrow>
                (is_shabbat (today E z) \<or> is_yom_tov (today E z))
                \<and> \<not> (is_shabbat (tomorrow E z) \<or> is_yom_tov (tomorrow E z)))"
proof -
  obtain d ss ts where d: "zmanim E z = Inr d" "map_of d ''sunset'' = Some ss"
      "map_of d ''three_stars'' = Some ts"
    using zmanim_total [OF assms] by blast
  note hv = havdalah_value [OF d]
  show ?thesis
    unfolding motzei_shabbat_chag_def hv
    by (cases "is_shabbat (today E z)"; cases "is_yom_tov (today E z)";
        cases "is_shabbat (tomorrow E z)"; cases "is_yom_tov (tomorrow E z)") simp_all
qed

text \<open>
  On Saturday 2019-04-27 at 21:00, that is 18:00 UTC, havdalah was at 16:53 UTC.
\<close>

theorem motzei_shabbat_chag_iff_witness:
  "init sample_env 0 (Some (Datetime 63691995600000000)) (Some petah_tikva) ''hebrew'' 18 0
     = Inr (sample_instance 63691995600000000)
   \<and> \<bar>latitude (location (sample_instance 63691995600000000))\<bar> \<le> 90
   \<and> havdalah sample_env (sample_instance 63691995600000000)
     = Inr (Some 63691980780000000)
   \<and> motzei_shabbat_chag sample_env (sample_instance 63691995600000000) = Inr True"
proof -
  let ?z = "sample_instance 63691995600000000"
  have hv: "havdalah sample_env ?z = Inr (Some 63691980780000000)"
    by (simp add: havdalah_def havdalah_datetime_def sample_defs zmanim_defs)
  have flags: "time ?z = 63691984800000000"
    by (simp_all add: sample_defs)
  from motzei_shabbat_chag_iff [OF init_sample_instance [of 0 63691995600000000]
      sample_instance_latitude]
  have "motzei_shabbat_chag sample_env ?z = Inr True"
    unfolding hv using flags by simp
  then show ?thesis
    using hv init_sample_instance sample_instance_latitude by simp
qed

section \<open>Candle lighting\<close>

text \<open>
  Claim C2.  The claim: \<open>candle_lighting\<close> returns the havdalah value whenever today
  and tomorrow are both rest days (Shabbat or Yom Tov), sunset minus
  \<open>candle_lighting_offset\<close> minutes whenever tomorrow is a rest day and today is not,
  and \<open>None\<close> otherwise.  The first test of the method reads only \<open>is_yom_tov\<close> of
  tomorrow, so on a Yom Tov whose morrow is a Shabbat that is not a Yom Tov the method
  falls through to the second test: on Friday 2019-04-26 of the concrete environment it
  returns sunset minus 18 minutes, 15:54 UTC, and not the havdalah value, 16:53 UTC.
\<close>

theorem candle_lighting_yom_tov_before_shabbat:
  "init sample_env 0 (Some (Datetime 63691866000000000)) (Some petah_tikva) ''hebrew'' 18 0
     = Inr (sample_instance 63691866000000000)
   \<and> is_yom_tov (today sample_env (sample_instance 63691866000000000))
   \<and> is_shabbat (tomorrow sample_env (sample_instance 63691866000000000))
   \<and> havdalah_datetime sample_env (sample_instance 63691866000000000)
     = Inr 63691894380000000
   \<and> candle_lighting sample_env (sample_instance 63691866000000000)
     = Inr (Some 63691890840000000)"
  by (simp add: candle_lighting_def havdalah_datetime_def sample_defs zmanim_defs)

section \<open>The constructor\<close>

text \<open>
  Claim C8.  The claim: a construction with a date-only moment, the omitted moment
  included, pairs the date with the current time of that call.  With the moment
  omitted the constructor receives the default value, a \<open>datetime\<close> fixed when the
  \<open>def\<close> statement ran: the result does not depend on the current time of the call,
  and its date and instant are those of the default.
\<close>

theorem omitted_moment_shares_default_instant:
  "init E now1 None l lang c h = init E now2 None l lang c h
   \<and> (\<exists>z. init E now1 None l lang c h = Inr z
          \<and> date z = date_of (default_date E)
          \<and> time z = timezone (location z) (default_date E))"
  by (simp add: init_def Let_def)

text \<open>With a \<open>date\<close> passed explicitly the current time of the call is read.\<close>

lemma date_moment_reads_now:
  "\<exists>z. init E now (Some (Date d)) l lang c h = Inr z
       \<and> date z = d \<and> time z = timezone (location z) now"
  by (simp add: init_def Let_def)

section \<open>The choice between astral and the low-accuracy solver\<close>

text \<open>
  \<open>get_utc_sun_time_full\<close> tests the flag and the latitude the instance has when it is
  called, whatever the instance is.
\<close>

lemma get_utc_sun_time_full_branch:
  "get_utc_sun_time_full E z =
     (if USE_ASTRAL E \<and> \<bar>latitude (location z)\<bar> \<le> 50 then sun_markers_astral E z
      else sun_markers_low z)"
  by (auto simp: get_utc_sun_time_full_def low_accuracy_branch_def MAX_LATITUDE_ASTRAL_def)

lemma sun_markers_astral_unset:
  assumes "astral_sun z = None"
  shows "sun_markers_astral E z = Inl AttributeError"
  using assms by (simp add: sun_markers_astral_def)

text \<open>
  Claim C6, as amended.  For an instance as the constructor built it, whose latitude
  is that of the location passed, \<open>get_utc_sun_time_full\<close> computes the markers by the
  astral branch if and only if astral is available and the absolute latitude is at
  most 50 degrees, and by the low-accuracy solver otherwise; the constructor set the
  astral attributes exactly when the astral branch is taken, which then reads them
  without failure.  The method makes the test itself, at each call, on the latitude
  the instance has at that call: after an assignment of another location to the
  attribute \<open>location\<close> the branch is the one of the new latitude.
\<close>

theorem astral_branch_of_constructed_instance:
  assumes "init E now a l lang c h = Inr z"
  shows "latitude (location z)
           = latitude (case l of None \<Rightarrow> default_location E | Some loc \<Rightarrow> loc)
         \<and> (if USE_ASTRAL E \<and> \<bar>latitude (location z)\<bar> \<le> 50
            then astral_observer z \<noteq> None \<and> astral_sun z \<noteq> None
                 \<and> get_utc_sun_time_full E z = sun_markers_astral E z
                 \<and> (\<exists>d. sun_markers_astral E z = Inr d)
            else astral_observer z = None \<and> astral_sun z = None
                 \<and> get_utc_sun_time_full E z = sun_markers_low z)
         \<and> (\<forall>loc'. get_utc_sun_time_full E (z\<lparr>location := loc'\<rparr>) =
                (if USE_ASTRAL E \<and> \<bar>latitude loc'\<bar> \<le> 50
                 then sun_markers_astral E (z\<lparr>location := loc'\<rparr>)
                 else sun_markers_low (z\<lparr>location := loc'\<rparr>)))"
proof -
  have loc: "latitude (location z)
           = latitude (case l of None \<Rightarrow> default_location E | Some loc \<Rightarrow> loc)"
    using assms by (auto simp: init_def Let_def split: option.splits moment.splits)
  have branch: "low_accuracy_branch E z \<longleftrightarrow> \<not> (USE_ASTRAL E \<and> \<bar>latitude (location z)\<bar> \<le> 50)"
    by (auto simp: low_accuracy_branch_def MAX_LATITUDE_ASTRAL_def)
  have built: "if USE_ASTRAL E \<and> \<bar>latitude (location z)\<bar> \<le> 50
            then astral_observer z \<noteq> None \<and> astral_sun z \<noteq> None
                 \<and> get_utc_sun_time_full E z = sun_markers_astral E z
                 \<and> (\<exists>d. sun_markers_astral E z = Inr d)
            else astral_observer z = None \<and> astral_sun z = None
                 \<and> get_utc_sun_time_full E z = sun_markers_low z"
  proof (cases "USE_ASTRAL E \<and> \<bar>latitude (location z)\<bar> \<le> 50")
    case True
    then have attrs: "astral_observer z \<noteq> None" "astral_sun z \<noteq> None"
      using init_astral_attrs [OF assms] branch by simp_all
    moreover have "\<exists>d. sun_markers_astral E z = Inr d"
      using sun_markers_astral_total [OF attrs(2) attrs(1)] by blast
    ultimately show ?thesis
      using True branch by (simp add: get_utc_sun_time_full_def)
  next
    case False
    then have "astral_observer z = None" "astral_sun z = None"
      using init_astral_attrs [OF assms] branch by simp_all
    then show ?thesis
      using False branch by (simp add: get_utc_sun_time_full_def)
  qed
  have later: "\<forall>loc'. get_utc_sun_time_full E (z\<lparr>location := loc'\<rparr>) =
                (if USE_ASTRAL E \<and> \<bar>latitude loc'\<bar> \<le> 50
                 then sun_markers_astral E (z\<lparr>location := loc'\<rparr>)
                 else sun_markers_low (z\<lparr>location := loc'\<rparr>))"
    by (simp add: get_utc_sun_time_full_branch)
  from loc built later show ?thesis by (intro conjI)
qed

text \<open>
  Two constructions in the concrete environment, where astral is available: Petah
  Tikva, at 32 degrees north, takes the astral branch; the North Pole takes the
  low-accuracy solver.
\<close>

lemma init_january_instance:
  assumes "50 < \<bar>lat\<bar>"
  shows "init sample_env 63681984000000000 (Some (Date 737061))
           (Some \<lparr>latitude = lat, longitude = lon, timezone = (\<lambda>t. t),
                   fromutc = (\<lambda>t. t), diaspora = False\<rparr>)
           ''hebrew'' 18 0
         = Inr (january_instance lat lon)"
  using assms by (simp add: init_def sample_env_def january_instance_def Let_def MAX_LATITUDE_ASTRAL_def)

theorem astral_branch_of_constructed_instance_witness:
  "init sample_env 0 (Some (Datetime 63691817400000000)) (Some petah_tikva) ''hebrew'' 18 0
     = Inr (sample_instance 63691817400000000)
   \<and> astral_sun (sample_instance 63691817400000000) \<noteq> None
   \<and> get_utc_sun_time_full sample_env (sample_instance 63691817400000000)
     = sun_markers_astral sample_env (sample_instance 63691817400000000)
   \<and> init sample_env 63681984000000000 (Some (Date 737061))
       (Some \<lparr>latitude = 90, longitude = 0, timezone = (\<lambda>t. t),
               fromutc = (\<lambda>t. t), diaspora = False\<rparr>)
       ''hebrew'' 18 0
     = Inr (january_instance 90 0)
   \<and> astral_sun (january_instance 90 0) = None
   \<and> get_utc_sun_time_full sample_env (january_instance 90 0)
     = sun_markers_low (january_instance 90 0)"
proof -
  have a: "USE_ASTRAL sample_env \<and> \<bar>latitude (location (sample_instance 63691817400000000))\<bar> \<le> 50"
    by (simp add: sample_defs)
  have b: "\<not> (USE_ASTRAL sample_env \<and> \<bar>latitude (location (january_instance 90 0))\<bar> \<le> 50)"
    by (simp add: january_instance_def)
  have i: "init sample_env 63681984000000000 (Some (Date 737061))
       (Some \<lparr>latitude = 90, longitude = 0, timezone = (\<lambda>t. t),
               fromutc = (\<lambda>t. t), diaspora = False\<rparr>)
       ''hebrew'' 18 0 = Inr (january_instance 90 0)"
    by (rule init_january_instance) simp
  from astral_branch_of_constructed_instance [OF init_sample_instance [of 0 63691817400000000]]
    astral_branch_of_constructed_instance [OF i] a b i
  show ?thesis
    using init_sample_instance [of 0 63691817400000000] by simp
qed

section \<open>The derived times\<close>

lemma get_utc_sun_time_full_is_table:
  assumes "get_utc_sun_time_full E z = Inr d"
  shows "\<exists>sr ss fl ta fs ts. d = zmanim_table sr ss fl ta fs ts"
proof (cases "low_accuracy_branch E z")
  case True
  with assms have "sun_markers_low z = Inr d"
    by (simp add: get_utc_sun_time_full_def)
  then show ?thesis
    unfolding sun_markers_low_def and_then_def
    by (auto split: sum.splits prod.splits) blast
next
  case False
  with assms have "sun_markers_astral E z = Inr d"
    by (simp add: get_utc_sun_time_full_def)
  then show ?thesis
    unfolding sun_markers_astral_def and_then_def Let_def
    by (auto split: sum.splits option.splits) blast
qed

text \<open>
  Claim C4, as amended.  In every table that \<open>get_utc_sun_time_full\<close> returns,
  \<open>sun_hour\<close> is the integer part (the floor) of \<open>(sunset - sunrise) / 12\<close> and
  \<open>midday\<close> is the floor of \<open>(sunset + sunrise) / 2\<close>: the method divides by \<open>//\<close>.
\<close>

theorem sun_hour_midday_floor:
  assumes "get_utc_sun_time_full E z = Inr d"
  shows "\<exists>sr ss. map_of d ''sunrise'' = Some (PyInt sr) \<and> map_of d ''sunset'' = Some (PyInt ss)
           \<and> map_of d ''sun_hour'' = Some (PyInt \<lfloor>(real_of_int ss - real_of_int sr) / 12\<rfloor>)
           \<and> map_of d ''midday'' = Some (PyInt \<lfloor>(real_of_int ss + real_of_int sr) / 2\<rfloor>)"
proof -
  obtain sr ss fl ta fs ts where d: "d = zmanim_table sr ss fl ta fs ts"
    using get_utc_sun_time_full_is_table [OF assms] by blast
  have "\<lfloor>(real_of_int ss - real_of_int sr) / 12\<rfloor> = (ss - sr) div 12"
    using floor_divide_of_int_eq [of "ss - sr" 12, where ?'a = real] by simp
  moreover have "\<lfloor>(real_of_int ss + real_of_int sr) / 2\<rfloor> = (ss + sr) div 2"
    using floor_divide_of_int_eq [of "ss + sr" 2, where ?'a = real] by simp
  ultimately show ?thesis
    unfolding d by (simp add: zmanim_table_def Let_def)
qed

text \<open>The table of the concrete environment: sunrise at minute 189, sunset at 972.\<close>

lemma sample_table:
  "get_utc_sun_time_full sample_env (sample_instance 63691817400000000)
   = Inr (zmanim_table 189 972 112 138 998 1013)"
  by (simp add: sample_defs zmanim_defs)

theorem sun_hour_midday_floor_witness:
  "get_utc_sun_time_full sample_env (sample_instance 63691817400000000)
     = Inr (zmanim_table 189 972 112 138 998 1013)
   \<and> map_of (zmanim_table 189 972 112 138 998 1013) ''sun_hour'' = Some (PyInt 65)
   \<and> map_of (zmanim_table 189 972 112 138 998 1013) ''midday'' = Some (PyInt 580)"
proof -
  from sun_hour_midday_floor [OF sample_table] obtain sr ss where
    "map_of (zmanim_table 189 972 112 138 998 1013) ''sunrise'' = Some (PyInt sr)"
    "map_of (zmanim_table 189 972 112 138 998 1013) ''sunset'' = Some (PyInt ss)"
    "map_of (zmanim_table 189 972 112 138 998 1013) ''sun_hour''
       = Some (PyInt \<lfloor>(real_of_int ss - real_of_int sr) / 12\<rfloor>)"
    "map_of (zmanim_table 189 972 112 138 998 1013) ''midday''
       = Some (PyInt \<lfloor>(real_of_int ss + real_of_int sr) / 2\<rfloor>)"
    by blast
  then show ?thesis
    using sample_table by (simp add: zmanim_table_def Let_def)
qed

text \<open>
  Claim C4, as stated, fails: with sunrise at minute 189 and sunset at minute 972 the
  table holds \<open>sun_hour = 65\<close> and \<open>midday = 580\<close>, while the exact quotients are
  \<open>783 / 12 = 65.25\<close> and \<open>1161 / 2 = 580.5\<close>.
\<close>

theorem sun_hour_not_exact_quotient:
  "get_utc_sun_time_full sample_env (sample_instance 63691817400000000)
     = Inr (zmanim_table 189 972 112 138 998 1013)
   \<and> map_of (zmanim_table 189 972 112 138 998 1013) ''sunrise'' = Some (PyInt 189)
   \<and> map_of (zmanim_table 189 972 112 138 998 1013) ''sunset'' = Some (PyInt 972)
   \<and> map_of (zmanim_table 189 972 112 138 998 1013) ''sun_hour'' = Some (PyInt 65)
   \<and> map_of (zmanim_table 189 972 112 138 998 1013) ''midday'' = Some (PyInt 580)
   \<and> num_val (PyInt 65) \<noteq> (num_val (PyInt 972) - num_val (PyInt 189)) / 12
   \<and> num_val (PyInt 580) \<noteq> (num_val (PyInt 972) + num_val (PyInt 189)) / 2"
  using sample_table by (simp add: zmanim_table_def Let_def)

section \<open>The low-accuracy solver\<close>

text \<open>Truncation toward zero is monotone, and a step of two moves it.\<close>

lemma py_int_mono:
  assumes "x \<le> y"
  shows "py_int x \<le> py_int y"
proof (cases "0 \<le> x")
  case True
  then show ?thesis
    using assms by (simp add: py_int_def floor_mono)
next
  case False
  show ?thesis
  proof (cases "0 \<le> y")
    case True
    have "\<lceil>x\<rceil> \<le> 0" using False by (simp add: ceiling_le_iff)
    moreover have "0 \<le> \<lfloor>y\<rfloor>" using True by simp
    ultimately have "\<lceil>x\<rceil> \<le> \<lfloor>y\<rfloor>" by (rule order_trans)
    then show ?thesis using False True by (simp add: py_int_def)
  next
    case y: False
    then show ?thesis
      using False assms by (simp add: py_int_def ceiling_mono)
  qed
qed

lemma py_int_bounds: "x - 1 < real_of_int (py_int x)" "real_of_int (py_int x) < x + 1"
  unfolding py_int_def by (simp_all; linarith)+

lemma py_int_less:
  assumes "x + 2 \<le> y"
  shows "py_int x < py_int y"
proof -
  have "real_of_int (py_int x) < x + 1" by (rule py_int_bounds)
  also have "\<dots> \<le> y - 1" using assms by simp
  also have "\<dots> < real_of_int (py_int y)" by (rule py_int_bounds)
  finally show ?thesis by simp
qed

text \<open>The two results of the solver, with and without a crossing.\<close>

lemma get_utc_sun_time_deg_crossing:
  assumes "crossing_exists z deg"
  shows "get_utc_sun_time_deg z deg =
           Inr (py_int (720 - 4 * longitude (location z)
                        - 720 * arccos (acos_arg (math_pi * deg / 180)
                                          (math_pi * latitude (location z) / 180)
                                          (decl_of (gama_of z))) / math_pi
                        - eqtime_of (gama_of z)),
                py_int (720 - 4 * longitude (location z)
                        + 720 * arccos (acos_arg (math_pi * deg / 180)
                                          (math_pi * latitude (location z) / 180)
                                          (decl_of (gama_of z))) / math_pi
                        - eqtime_of (gama_of z)))"
  using assms by (auto simp: crossing_exists_def get_utc_sun_time_deg_def Let_def)

lemma get_utc_sun_time_deg_no_crossing:
  assumes "\<bar>latitude (location z)\<bar> \<le> 90" "\<not> crossing_exists z deg"
  shows "get_utc_sun_time_deg z deg = Inr (- 720, - 720)"
proof -
  have "cos (math_pi * latitude (location z) / 180) * cos (decl_of (gama_of z)) \<noteq> 0"
    using cos_latitude_pos [OF assms(1)] cos_decl_of_pos [of "gama_of z"] by simp
  then show ?thesis
    using assms(2) by (auto simp: crossing_exists_def get_utc_sun_time_deg_def Let_def)
qed

lemma crossing_exists_cong:
  assumes "date z2 = date z1" "latitude (location z2) = latitude (location z1)"
  shows "crossing_exists z2 deg = crossing_exists z1 deg" "gama_of z2 = gama_of z1"
  using assms by (simp_all add: crossing_exists_def gama_of_def gday_of_year_def)

text \<open>
  Claim C7, as amended.  With the day of the year, the latitude and the altitude
  fixed, a crossing existing and both longitudes between -180 and 180 degrees, a larger
  (more easterly) longitude gives event times that are never later: both results of
  the solver are non-increasing in the longitude.  The results are whole minutes, so
  nearby longitudes can give the same minute.  Where the crossing is clear of the
  limits of solvability, a degree of longitude, which is four minutes, makes both
  results strictly earlier; a whole degree and a clear crossing are asked for so that
  the strict part does not hang on the rounding of a float operation.
\<close>

theorem sun_times_not_later_with_longitude:
  assumes "crossing_exists z1 deg"
    and "date z2 = date z1" "latitude (location z2) = latitude (location z1)"
    and "- 180 \<le> longitude (location z1)"
      "longitude (location z1) \<le> longitude (location z2)"
      "longitude (location z2) \<le> 180"
  shows "\<exists>r1 s1 r2 s2.
           get_utc_sun_time_deg z1 deg = Inr (r1, s1)
           \<and> get_utc_sun_time_deg z2 deg = Inr (r2, s2)
           \<and> r2 \<le> r1 \<and> s2 \<le> s1
           \<and> (crossing_clear z1 deg
                \<and> longitude (location z1) + 1 \<le> longitude (location z2)
                \<longrightarrow> r2 < r1 \<and> s2 < s1)"
proof -
  have c2: "crossing_exists z2 deg" and g: "gama_of z2 = gama_of z1"
    using crossing_exists_cong [OF assms(2,3)] assms(1) by simp_all
  note v1 = get_utc_sun_time_deg_crossing [OF assms(1)]
  note v2 = get_utc_sun_time_deg_crossing [OF c2, unfolded g assms(3)]
  show ?thesis
    unfolding v1 v2 using assms(5)
    by (auto intro!: py_int_mono py_int_less)
qed

text \<open>
  On 2019-01-02 the day of the year is 1, the angle \<open>gama\<close> is 0 and the declination
  is a rational number.
\<close>

lemma gday_of_year_january [simp]: "gday_of_year (january_instance lat lon) = 1"
  by (simp add: gday_of_year_def january_instance_def year_of_def days_before_year_def Let_def)

lemma gama_of_january [simp]: "gama_of (january_instance lat lon) = 0"
  by (simp add: gama_of_def)

lemma decl_of_zero: "decl_of 0 = - 402449 / 1000000"
  by (simp add: decl_of_def)

lemma pi_gt_math_pi_bounds: "3 < math_pi" "math_pi < 4"
  by (simp_all add: math_pi_def)

lemma crossing_exists_january_equator:
  "crossing_exists (january_instance 0 lon) 90.833"
proof -
  let ?a = "402449 / 1000000 :: real"
  let ?sa = "math_pi * 90.833 / 180"
  have pi3: "3 < pi" using math_pi_less_pi pi_gt_math_pi_bounds by linarith
  have sa: "1 < ?sa" "?sa < 2" by (simp_all add: math_pi_def)
  have ca: "0 < cos ?a"
    using pi3 by (intro cos_gt_zero_pi) simp_all
  have up: "cos ?sa \<le> cos ?a"
    using sa pi3 by (intro cos_monotone_0_pi_le) simp_all
  have "cos (pi - ?a) \<le> cos ?sa"
    using sa pi3 by (intro cos_monotone_0_pi_le) simp_all
  then have lo: "- cos ?a \<le> cos ?sa" by simp
  have "- 1 \<le> cos ?sa / cos ?a" "cos ?sa / cos ?a \<le> 1"
    using ca up lo by (simp_all add: field_simps)
  moreover have "latitude (location (january_instance 0 lon)) = 0"
    by (simp add: january_instance_def)
  ultimately show ?thesis
    using ca by (simp add: crossing_exists_def acos_arg_def Let_def decl_of_zero)
qed

section \<open>Totality of the low-accuracy path\<close>

text \<open>
  The argument of \<open>math.acos\<close> exceeds 1 when the altitude lies above what the sun
  reaches at its highest: \<open>cos (L - D) < cos sa\<close>.
\<close>

lemma acos_arg_gt_one:
  assumes "0 < cos L" "0 < cos D" "cos (L - D) < cos sa"
  shows "1 < acos_arg sa L D"
proof -
  have pos: "0 < cos L * cos D" using assms by simp
  have "acos_arg sa L D = (cos sa - sin L * sin D) / (cos L * cos D)"
    using assms by (simp add: acos_arg_def tan_def field_simps)
  moreover have "cos L * cos D < cos sa - sin L * sin D"
    using assms(3) by (simp add: cos_diff)
  ultimately show ?thesis
    using pos by (simp add: field_simps)
qed

text \<open>The five calls of the solver return, and a call without a crossing gives -720.\<close>

lemma low_table_value:
  assumes "\<bar>latitude (location z)\<bar> \<le> 90"
  shows "\<exists>sr ss fl ta fs ts.
           sun_markers_low z = Inr (zmanim_table sr ss fl ta fs ts)
           \<and> (\<not> crossing_exists z 90.833 \<longrightarrow> sr = - 720 \<and> ss = - 720)
           \<and> (\<not> crossing_exists z 106.1 \<longrightarrow> fl = - 720)
           \<and> (\<not> crossing_exists z 101.0 \<longrightarrow> ta = - 720)
           \<and> (\<not> crossing_exists z 96.0 \<longrightarrow> fs = - 720)
           \<and> (\<not> crossing_exists z 98.5 \<longrightarrow> ts = - 720)"
proof -
  obtain sr ss where 1: "get_utc_sun_time_deg z 90.833 = Inr (sr, ss)"
    using get_utc_sun_time_deg_total [OF assms] by blast
  obtain fl x2 where 2: "get_utc_sun_time_deg z 106.1 = Inr (fl, x2)"
    using get_utc_sun_time_deg_total [OF assms] by blast
  obtain ta x3 where 3: "get_utc_sun_time_deg z 101.0 = Inr (ta, x3)"
    using get_utc_sun_time_deg_total [OF assms] by blast
  obtain x4 fs where 4: "get_utc_sun_time_deg z 96.0 = Inr (x4, fs)"
    using get_utc_sun_time_deg_total [OF assms] by blast
  obtain x5 ts where 5: "get_utc_sun_time_deg z 98.5 = Inr (x5, ts)"
    using get_utc_sun_time_deg_total [OF assms] by blast
  have "sun_markers_low z = Inr (zmanim_table sr ss fl ta fs ts)"
    unfolding sun_markers_low_def 1 2 3 4 5 by simp
  moreover have "\<not> crossing_exists z 90.833 \<longrightarrow> sr = - 720 \<and> ss = - 720"
    using get_utc_sun_time_deg_no_crossing [OF assms, of "90.833"] 1 by auto
  moreover have "\<not> crossing_exists z 106.1 \<longrightarrow> fl = - 720"
    using get_utc_sun_time_deg_no_crossing [OF assms, of "106.1"] 2 by auto
  moreover have "\<not> crossing_exists z 101.0 \<longrightarrow> ta = - 720"
    using get_utc_sun_time_deg_no_crossing [OF assms, of "101.0"] 3 by auto
  moreover have "\<not> crossing_exists z 96.0 \<longrightarrow> fs = - 720"
    using get_utc_sun_time_deg_no_crossing [OF assms, of "96.0"] 4 by auto
  moreover have "\<not> crossing_exists z 98.5 \<longrightarrow> ts = - 720"
    using get_utc_sun_time_deg_no_crossing [OF assms, of "98.5"] 5 by auto
  ultimately show ?thesis by blast
qed





text \<open>
  At the North Pole on 2019-01-02 the sun reaches none of the altitudes up to 110
  degrees from the zenith.
\<close>

lemma no_crossing_north_pole:
  assumes "0 \<le> deg" "deg \<le> 110"
  shows "\<not> crossing_exists (january_instance 90 lon) deg"
proof -
  let ?L = "math_pi * 90 / 180"
  let ?D = "- 402449 / 1000000 :: real"
  let ?sa = "math_pi * deg / 180"
  have pi: "math_pi < pi" by (rule math_pi_less_pi)
  have mp: "3 < math_pi" "math_pi < 4" by (rule pi_gt_math_pi_bounds)+
  have cL: "0 < cos ?L"
    using cos_latitude_pos [of 90] by simp
  have cD: "0 < cos ?D"
    using cos_decl_of_pos [of 0] by (simp add: decl_of_zero)
  have sa0: "0 \<le> ?sa" using assms mp by simp
  have "math_pi * deg \<le> math_pi * 110"
    using assms mp by (intro mult_left_mono) simp_all
  then have "?sa \<le> math_pi * 110 / 180" by simp
  also have "\<dots> < ?L - ?D" by (simp add: math_pi_def)
  finally have lt: "?sa < ?L - ?D" .
  have le: "?L - ?D \<le> pi" using pi mp by simp
  have "cos (?L - ?D) < cos ?sa"
    using sa0 lt le by (rule cos_monotone_0_pi)
  then have "1 < acos_arg ?sa ?L ?D"
    using cL cD by (intro acos_arg_gt_one)
  moreover have "latitude (location (january_instance 90 lon)) = 90"
    by (simp add: january_instance_def)
  ultimately show ?thesis
    by (simp add: crossing_exists_def Let_def decl_of_zero)
qed


section \<open>The branch after a change of location\<close>

text \<open>
  Claim C6, as stated, fails: the selection is not decided once at construction.  The
  instance built at the North Pole has no astral attributes, and a call returns the
  table of the low-accuracy solver, in which every marker is -720.  After the
  assignment of the location of Petah Tikva to the attribute \<open>location\<close> of that same
  instance, the next call tests the new latitude, takes the astral branch and fails
  on the attribute the constructor did not set.
\<close>

theorem branch_follows_reassigned_location:
  "init sample_env 63681984000000000 (Some (Date 737061))
       (Some \<lparr>latitude = 90, longitude = 0, timezone = (\<lambda>t. t),
               fromutc = (\<lambda>t. t), diaspora = False\<rparr>)
       ''hebrew'' 18 0
     = Inr (january_instance 90 0)
   \<and> astral_sun (january_instance 90 0) = None
   \<and> get_utc_sun_time_full sample_env (january_instance 90 0)
     = sun_markers_low (january_instance 90 0)
   \<and> get_utc_sun_time_full sample_env (january_instance 90 0)
     = Inr (zmanim_table (- 720) (- 720) (- 720) (- 720) (- 720) (- 720))
   \<and> get_utc_sun_time_full sample_env ((january_instance 90 0)\<lparr>location := petah_tikva\<rparr>)
     = sun_markers_astral sample_env ((january_instance 90 0)\<lparr>location := petah_tikva\<rparr>)
   \<and> get_utc_sun_time_full sample_env ((january_instance 90 0)\<lparr>location := petah_tikva\<rparr>)
     = Inl AttributeError"
proof -
  let ?z = "january_instance 90 0"
  have i: "init sample_env 63681984000000000 (Some (Date 737061))
       (Some \<lparr>latitude = 90, longitude = 0, timezone = (\<lambda>t. t),
               fromutc = (\<lambda>t. t), diaspora = False\<rparr>)
       ''hebrew'' 18 0 = Inr ?z"
    by (rule init_january_instance) simp
  have unset: "astral_sun ?z = None" "astral_sun (?z\<lparr>location := petah_tikva\<rparr>) = None"
    by (simp_all add: january_instance_def)
  have low: "get_utc_sun_time_full sample_env ?z = sun_markers_low ?z"
    by (simp add: get_utc_sun_time_full_branch january_instance_def)
  have lat: "\<bar>latitude (location ?z)\<bar> \<le> 90"
    by (simp add: january_instance_def)
  have nc: "\<not> crossing_exists ?z 90.833" "\<not> crossing_exists ?z 106.1"
    "\<not> crossing_exists ?z 101.0" "\<not> crossing_exists ?z 96.0" "\<not> crossing_exists ?z 98.5"
    by (rule no_crossing_north_pole; simp)+
  from low_table_value [OF lat] nc
  have table: "sun_markers_low ?z
     = Inr (zmanim_table (- 720) (- 720) (- 720) (- 720) (- 720) (- 720))"
    by auto
  have astral: "get_utc_sun_time_full sample_env (?z\<lparr>location := petah_tikva\<rparr>)
     = sun_markers_astral sample_env (?z\<lparr>location := petah_tikva\<rparr>)"
    by (simp add: get_utc_sun_time_full_branch sample_env_def petah_tikva_def)
  have fails: "sun_markers_astral sample_env (?z\<lparr>location := petah_tikva\<rparr>)
     = Inl AttributeError"
    using unset(2) by (rule sun_markers_astral_unset)
  from i unset(1) low table astral fails show ?thesis
    by (simp only: simp_thms)
qed

section \<open>Numerical bounds\<close>

text \<open>Nine decimals of \<open>\<pi>\<close>, from Machin's formula and the alternating series.\<close>

lemma pi_bounds: "3141592653 / 1000000000 < pi" "pi < 3141592654 / 1000000000"
proof -
  have lo5: "(\<Sum>i<2 * 4. (- 1) ^ i * (1 / real (i * 2 + 1) * (1 / 5) ^ (i * 2 + 1)))
            \<le> arctan (1 / 5 :: real)"
    by (rule arctan_partial_sums(1)) simp_all
  have hi5: "arctan (1 / 5 :: real)
            \<le> (\<Sum>i<2 * 4 + 1. (- 1) ^ i * (1 / real (i * 2 + 1) * (1 / 5) ^ (i * 2 + 1)))"
    by (rule arctan_partial_sums(2)) simp_all
  have lo239: "(\<Sum>i<2 * 1. (- 1) ^ i * (1 / real (i * 2 + 1) * (1 / 239) ^ (i * 2 + 1)))
            \<le> arctan (1 / 239 :: real)"
    by (rule arctan_partial_sums(1)) simp_all
  have hi239: "arctan (1 / 239 :: real)
            \<le> (\<Sum>i<2 * 1 + 1. (- 1) ^ i * (1 / real (i * 2 + 1) * (1 / 239) ^ (i * 2 + 1)))"
    by (rule arctan_partial_sums(2)) simp_all
  have "3141592653 / 1000000000 / 4 <
        4 * (\<Sum>i<2 * 4. (- 1) ^ i * (1 / real (i * 2 + 1) * (1 / 5) ^ (i * 2 + 1)))
        - (\<Sum>i<2 * 1 + 1. (- 1) ^ i * (1 / real (i * 2 + 1) * (1 / 239 :: real) ^ (i * 2 + 1)))"
    by (simp add: lessThan_nat_numeral power_divide)
  also have "\<dots> \<le> 4 * arctan (1 / 5) - arctan (1 / 239)"
    using lo5 hi239 by linarith
  also have "\<dots> = pi / 4"
    by (rule machin [symmetric])
  finally show "3141592653 / 1000000000 < pi" by simp
  have "pi / 4 = 4 * arctan (1 / 5) - arctan (1 / 239)"
    by (rule machin)
  also have "\<dots> \<le>
        4 * (\<Sum>i<2 * 4 + 1. (- 1) ^ i * (1 / real (i * 2 + 1) * (1 / 5) ^ (i * 2 + 1)))
        - (\<Sum>i<2 * 1. (- 1) ^ i * (1 / real (i * 2 + 1) * (1 / 239 :: real) ^ (i * 2 + 1)))"
    using hi5 lo239 by linarith
  also have "\<dots> < 3141592654 / 1000000000 / 4"
    by (simp add: lessThan_nat_numeral power_divide)
  finally show "pi < 3141592654 / 1000000000" by simp
qed

text \<open>
  Cosine and sine within \<open>10\<^sup>-\<^sup>1\<^sup>0\<close> of their Taylor polynomials for arguments up to
  \<open>8 / 5\<close>, and both are Lipschitz with constant 1: a value near a decimal is
  approximated by evaluating the polynomial at the decimal.
\<close>

lemma cos_horner_expand:
  "cos_horner y = 1 - y / 2 + y ^ 2 / 24 - y ^ 3 / 720 + y ^ 4 / 40320 - y ^ 5 / 3628800
     + y ^ 6 / 479001600 - y ^ 7 / 87178291200"
  unfolding cos_horner_def by (simp add: eval_nat_numeral field_simps)

lemma sin_horner_expand:
  "sin_horner y = 1 - y / 6 + y ^ 2 / 120 - y ^ 3 / 5040 + y ^ 4 / 362880 - y ^ 5 / 39916800
     + y ^ 6 / 6227020800 - y ^ 7 / 1307674368000"
  unfolding sin_horner_def by (simp add: eval_nat_numeral field_simps)

lemma cos_sum_horner: "(\<Sum>m<16. cos_coeff m * x ^ m) = cos_horner (x\<^sup>2)"
  unfolding cos_horner_expand
  by (simp add: cos_coeff_def lessThan_nat_numeral fact_numeral flip: power_mult)

lemma sin_sum_horner: "(\<Sum>m<17. sin_coeff m * x ^ m) = x * sin_horner (x\<^sup>2)"
  unfolding sin_horner_expand
  by (simp add: sin_coeff_def lessThan_nat_numeral fact_numeral algebra_simps
           flip: power_mult power_Suc)

lemma power_le_of_abs_le:
  fixes x :: real
  assumes "\<bar>x\<bar> \<le> b"
  shows "\<bar>x\<bar> ^ n \<le> b ^ n"
  using assms by (intro power_mono) simp_all

lemma cos_horner_approx:
  assumes "\<bar>x\<bar> \<le> 8 / 5"
  shows "\<bar>cos x - cos_horner (x\<^sup>2)\<bar> \<le> 1 / 10 ^ 10"
proof -
  obtain t where t: "cos x = (\<Sum>m<16. cos_coeff m * x ^ m)
      + (cos (t + 1 / 2 * real (16 :: nat) * pi) / fact 16) * x ^ 16"
    using Maclaurin_cos_expansion [of x 16] by blast
  define c where "c = cos (t + 1 / 2 * real (16 :: nat) * pi)"
  have c: "\<bar>c\<bar> \<le> 1" by (simp add: c_def)
  have "\<bar>cos x - cos_horner (x\<^sup>2)\<bar> = \<bar>c\<bar> * (\<bar>x\<bar> ^ 16 / fact 16)"
    unfolding t cos_sum_horner c_def [symmetric] by (simp add: abs_mult power_abs)
  also have "\<dots> \<le> 1 * (\<bar>x\<bar> ^ 16 / fact 16)"
    using c by (intro mult_right_mono) simp_all
  also have "\<dots> \<le> (8 / 5) ^ 16 / fact 16"
    using power_le_of_abs_le [OF assms, of 16] by (simp add: divide_right_mono)
  also have "\<dots> \<le> 1 / 10 ^ 10"
    by (simp add: fact_numeral power_divide)
  finally show ?thesis .
qed

lemma sin_horner_approx:
  assumes "\<bar>x\<bar> \<le> 8 / 5"
  shows "\<bar>sin x - x * sin_horner (x\<^sup>2)\<bar> \<le> 1 / 10 ^ 10"
proof -
  have "\<bar>sin x - x * sin_horner (x\<^sup>2)\<bar> \<le> inverse (fact 17) * \<bar>x\<bar> ^ 17"
    using Maclaurin_sin_bound [of x 17] by (simp only: sin_sum_horner)
  also have "\<dots> \<le> inverse (fact 17) * (8 / 5) ^ 17"
    using power_le_of_abs_le [OF assms, of 17] by (intro mult_left_mono) simp_all
  also have "\<dots> \<le> 1 / 10 ^ 10"
    by (simp add: fact_numeral power_divide)
  finally show ?thesis .
qed

lemma cos_lipschitz: "\<bar>cos x - cos y\<bar> \<le> \<bar>x - y\<bar>" for x y :: real
proof -
  have "\<bar>cos x - cos y\<bar> = 2 * \<bar>sin ((x + y) / 2)\<bar> * \<bar>sin ((y - x) / 2)\<bar>"
    by (simp add: cos_diff_cos abs_mult)
  also have "\<dots> \<le> 2 * 1 * \<bar>(y - x) / 2\<bar>"
    by (intro mult_mono abs_sin_x_le_abs_x) simp_all
  finally show ?thesis by simp
qed

lemma sin_lipschitz: "\<bar>sin x - sin y\<bar> \<le> \<bar>x - y\<bar>" for x y :: real
proof -
  have "\<bar>sin x - sin y\<bar> = 2 * \<bar>sin ((x - y) / 2)\<bar> * \<bar>cos ((x + y) / 2)\<bar>"
    by (simp add: sin_diff_sin abs_mult)
  also have "\<dots> \<le> 2 * \<bar>(x - y) / 2\<bar> * 1"
    by (intro mult_mono abs_sin_x_le_abs_x) simp_all
  finally show ?thesis by simp
qed

lemma cos_near:
  assumes "\<bar>x - q\<bar> \<le> d" "\<bar>q\<bar> \<le> 8 / 5" "\<bar>cos_horner (q\<^sup>2) - c\<bar> \<le> e"
  shows "\<bar>cos x - c\<bar> \<le> d + e + 1 / 10 ^ 10"
  using cos_lipschitz [of x q] cos_horner_approx [OF assms(2)] assms(1,3) by linarith

lemma sin_near:
  assumes "\<bar>x - q\<bar> \<le> d" "\<bar>q\<bar> \<le> 8 / 5" "\<bar>q * sin_horner (q\<^sup>2) - s\<bar> \<le> e"
  shows "\<bar>sin x - s\<bar> \<le> d + e + 1 / 10 ^ 10"
  using sin_lipschitz [of x q] sin_horner_approx [OF assms(2)] assms(1,3) by linarith

text \<open>Approximations of products and of the cosine and sine of a sum.\<close>

lemma mult_near:
  fixes x y a b :: real
  assumes "\<bar>x - a\<bar> \<le> d" "\<bar>y - b\<bar> \<le> e"
  shows "\<bar>x * y - a * b\<bar> \<le> \<bar>a\<bar> * e + \<bar>b\<bar> * d + d * e"
proof -
  have "x * y - a * b = a * (y - b) + b * (x - a) + (x - a) * (y - b)"
    by (simp add: algebra_simps)
  then have "\<bar>x * y - a * b\<bar> \<le> \<bar>a * (y - b)\<bar> + \<bar>b * (x - a)\<bar> + \<bar>(x - a) * (y - b)\<bar>"
    by linarith
  also have "\<dots> = \<bar>a\<bar> * \<bar>y - b\<bar> + \<bar>b\<bar> * \<bar>x - a\<bar> + \<bar>x - a\<bar> * \<bar>y - b\<bar>"
    by (simp add: abs_mult)
  also have "\<dots> \<le> \<bar>a\<bar> * e + \<bar>b\<bar> * d + d * e"
    using assms by (intro add_mono mult_mono) simp_all
  finally show ?thesis .
qed

lemma angle_sum_near:
  fixes x y :: real
  assumes "\<bar>cos x - a\<bar> \<le> d" "\<bar>sin x - b\<bar> \<le> d" "\<bar>cos y - c\<bar> \<le> e" "\<bar>sin y - s\<bar> \<le> e"
    and "\<bar>a\<bar> \<le> 1" "\<bar>b\<bar> \<le> 1" "\<bar>c\<bar> \<le> 1" "\<bar>s\<bar> \<le> 1"
  shows "\<bar>cos (x + y) - (a * c - b * s)\<bar> \<le> 2 * (d + e + d * e)"
    and "\<bar>sin (x + y) - (b * c + a * s)\<bar> \<le> 2 * (d + e + d * e)"
proof -
  have d: "0 \<le> d" and e: "0 \<le> e" using assms(1,3) by linarith+
  have le: "\<bar>u\<bar> * e + \<bar>v\<bar> * d + d * e \<le> d + e + d * e" if "\<bar>u\<bar> \<le> 1" "\<bar>v\<bar> \<le> 1" for u v :: real
  proof -
    have "\<bar>u\<bar> * e \<le> 1 * e" "\<bar>v\<bar> * d \<le> 1 * d"
      using that d e by (intro mult_right_mono; simp)+
    then show ?thesis by linarith
  qed
  have cc: "\<bar>cos x * cos y - a * c\<bar> \<le> d + e + d * e"
    using mult_near [OF assms(1,3)] le [OF assms(5,7)] by linarith
  have ss: "\<bar>sin x * sin y - b * s\<bar> \<le> d + e + d * e"
    using mult_near [OF assms(2,4)] le [OF assms(6,8)] by linarith
  have sc: "\<bar>sin x * cos y - b * c\<bar> \<le> d + e + d * e"
    using mult_near [OF assms(2,3)] le [OF assms(6,7)] by linarith
  have cs: "\<bar>cos x * sin y - a * s\<bar> \<le> d + e + d * e"
    using mult_near [OF assms(1,4)] le [OF assms(5,8)] by linarith
  have "cos (x + y) - (a * c - b * s) = (cos x * cos y - a * c) - (sin x * sin y - b * s)"
    by (simp add: cos_add)
  then have "\<bar>cos (x + y) - (a * c - b * s)\<bar>
      \<le> \<bar>cos x * cos y - a * c\<bar> + \<bar>sin x * sin y - b * s\<bar>"
    by (simp only: abs_triangle_ineq4)
  with cc ss show "\<bar>cos (x + y) - (a * c - b * s)\<bar> \<le> 2 * (d + e + d * e)"
    by argo
  have "sin (x + y) - (b * c + a * s) = (sin x * cos y - b * c) + (cos x * sin y - a * s)"
    by (simp add: sin_add)
  then have "\<bar>sin (x + y) - (b * c + a * s)\<bar>
      \<le> \<bar>sin x * cos y - b * c\<bar> + \<bar>cos x * sin y - a * s\<bar>"
    by (simp only: abs_triangle_ineq)
  with sc cs show "\<bar>sin (x + y) - (b * c + a * s)\<bar> \<le> 2 * (d + e + d * e)"
    by argo
qed

text \<open>The cosines and sines of \<open>gama\<close>, \<open>2 gama\<close> and \<open>3 gama\<close> on day 305.\<close>

lemma trig_gama:
  "\<bar>cos gama_nov2 - 0.497513285\<bar> \<le> 2 / 10 ^ 8"
  "\<bar>sin gama_nov2 - (- 0.867456357)\<bar> \<le> 2 / 10 ^ 8"
proof -
  have x: "\<bar>(2 * pi - gama_nov2) - 1.05006659\<bar> \<le> 1 / 10 ^ 8"
    using pi_bounds by (simp add: gama_nov2_def math_pi_def abs_le_iff)
  have q: "\<bar>1.05006659 :: real\<bar> \<le> 8 / 5" by simp
  have "\<bar>cos (2 * pi - gama_nov2) - 0.497513285\<bar> \<le> 1 / 10 ^ 8 + 1 / 10 ^ 9 + 1 / 10 ^ 10"
    by (rule cos_near [OF x q]) (simp add: cos_horner_def power2_eq_square)
  then show "\<bar>cos gama_nov2 - 0.497513285\<bar> \<le> 2 / 10 ^ 8" by (simp; argo)
  have "\<bar>sin (2 * pi - gama_nov2) - 0.867456357\<bar> \<le> 1 / 10 ^ 8 + 1 / 10 ^ 9 + 1 / 10 ^ 10"
    by (rule sin_near [OF x q]) (simp add: sin_horner_def power2_eq_square)
  then show "\<bar>sin gama_nov2 - (- 0.867456357)\<bar> \<le> 2 / 10 ^ 8" by (simp; argo)
qed

lemma trig_2gama:
  "\<bar>cos (2 * gama_nov2) - (- 0.504961063)\<bar> \<le> 1 / 10 ^ 7"
  "\<bar>sin (2 * gama_nov2) - (- 0.863142124)\<bar> \<le> 1 / 10 ^ 7"
proof -
  have eq: "2 * gama_nov2 = gama_nov2 + gama_nov2" by simp
  note s = angle_sum_near [OF trig_gama trig_gama, unfolded eq [symmetric]]
  have "\<bar>cos (2 * gama_nov2) - (0.497513285 * 0.497513285 - (- 0.867456357) * (- 0.867456357))\<bar>
        \<le> 2 * (2 / 10 ^ 8 + 2 / 10 ^ 8 + 2 / 10 ^ 8 * (2 / 10 ^ 8))"
    by (rule s) simp_all
  then show "\<bar>cos (2 * gama_nov2) - (- 0.504961063)\<bar> \<le> 1 / 10 ^ 7" by (simp; argo)
  have "\<bar>sin (2 * gama_nov2) - ((- 0.867456357) * 0.497513285 + 0.497513285 * (- 0.867456357))\<bar>
        \<le> 2 * (2 / 10 ^ 8 + 2 / 10 ^ 8 + 2 / 10 ^ 8 * (2 / 10 ^ 8))"
    by (rule s) simp_all
  then show "\<bar>sin (2 * gama_nov2) - (- 0.863142124)\<bar> \<le> 1 / 10 ^ 7" by (simp; argo)
qed

lemma trig_3gama:
  "\<bar>cos (3 * gama_nov2) - (- 0.99996296)\<bar> \<le> 3 / 10 ^ 7"
  "\<bar>sin (3 * gama_nov2) - 0.008607011\<bar> \<le> 3 / 10 ^ 7"
proof -
  have eq: "3 * gama_nov2 = 2 * gama_nov2 + gama_nov2" by simp
  note s = angle_sum_near [OF trig_2gama trig_gama, unfolded eq [symmetric]]
  have "\<bar>cos (3 * gama_nov2) - ((- 0.504961063) * 0.497513285 - (- 0.863142124) * (- 0.867456357))\<bar>
        \<le> 2 * (1 / 10 ^ 7 + 2 / 10 ^ 8 + 1 / 10 ^ 7 * (2 / 10 ^ 8))"
    by (rule s) simp_all
  then show "\<bar>cos (3 * gama_nov2) - (- 0.99996296)\<bar> \<le> 3 / 10 ^ 7" by (simp; argo)
  have "\<bar>sin (3 * gama_nov2) - ((- 0.863142124) * 0.497513285 + (- 0.504961063) * (- 0.867456357))\<bar>
        \<le> 2 * (1 / 10 ^ 7 + 2 / 10 ^ 8 + 1 / 10 ^ 7 * (2 / 10 ^ 8))"
    by (rule s) simp_all
  then show "\<bar>sin (3 * gama_nov2) - 0.008607011\<bar> \<le> 3 / 10 ^ 7" by (simp; argo)
qed

text \<open>The declination and the equation of time on day 305.\<close>

lemma decl_nov2: "\<bar>decl_of gama_nov2 - (- 0.247649119)\<bar> \<le> 2 / 10 ^ 8"
proof -
  note b = trig_gama [unfolded abs_le_iff] trig_2gama [unfolded abs_le_iff]
    trig_3gama [unfolded abs_le_iff]
  have "decl_of gama_nov2 - (- 0.247649119) \<le> 2 / 10 ^ 8"
    unfolding decl_of_def using b by (simp; linarith)
  moreover have "- (decl_of gama_nov2 - (- 0.247649119)) \<le> 2 / 10 ^ 8"
    unfolding decl_of_def using b by (simp; linarith)
  ultimately show ?thesis
    unfolding abs_le_iff by (rule conjI)
qed

lemma eqtime_nov2: "\<bar>eqtime_of gama_nov2 - 16.379094\<bar> \<le> 1 / 10 ^ 5"
proof -
  note b = trig_gama [unfolded abs_le_iff] trig_2gama [unfolded abs_le_iff]
  have "eqtime_of gama_nov2 - 16.379094 \<le> 1 / 10 ^ 5"
    unfolding eqtime_of_def using b by (simp add: algebra_simps; linarith)
  moreover have "- (eqtime_of gama_nov2 - 16.379094) \<le> 1 / 10 ^ 5"
    unfolding eqtime_of_def using b by (simp add: algebra_simps; linarith)
  ultimately show ?thesis
    unfolding abs_le_iff by (rule conjI)
qed

text \<open>The cosines and sines the argument of \<open>math.acos\<close> is made of.\<close>

lemma trig_decl:
  "\<bar>cos (decl_of gama_nov2) - 0.969491361\<bar> \<le> 3 / 10 ^ 8"
  "\<bar>sin (decl_of gama_nov2) - (- 0.24512548)\<bar> \<le> 3 / 10 ^ 8"
proof -
  have q: "\<bar>- 0.247649119 :: real\<bar> \<le> 8 / 5" by simp
  have "\<bar>cos (decl_of gama_nov2) - 0.969491361\<bar> \<le> 2 / 10 ^ 8 + 1 / 10 ^ 9 + 1 / 10 ^ 10"
    by (rule cos_near [OF decl_nov2 q]) (simp add: cos_horner_def power2_eq_square)
  then show "\<bar>cos (decl_of gama_nov2) - 0.969491361\<bar> \<le> 3 / 10 ^ 8"
    by (simp; argo)
  have "\<bar>sin (decl_of gama_nov2) - (- 0.24512548)\<bar> \<le> 2 / 10 ^ 8 + 1 / 10 ^ 9 + 1 / 10 ^ 10"
    by (rule sin_near [OF decl_nov2 q]) (simp add: sin_horner_def power2_eq_square)
  then show "\<bar>sin (decl_of gama_nov2) - (- 0.24512548)\<bar> \<le> 3 / 10 ^ 8"
    by (simp; argo)
qed

lemma trig_lat:
  "\<bar>cos lat_ross - 0.259779857\<bar> \<le> 1 / 10 ^ 8"
  "\<bar>sin lat_ross - (- 0.965667865)\<bar> \<le> 1 / 10 ^ 8"
proof -
  have x: "\<bar>lat_ross - (- 1.308002101)\<bar> \<le> 1 / 10 ^ 9"
    by (simp add: lat_ross_def math_pi_def abs_le_iff)
  have q: "\<bar>- 1.308002101 :: real\<bar> \<le> 8 / 5" by simp
  have "\<bar>cos lat_ross - 0.259779857\<bar> \<le> 1 / 10 ^ 9 + 1 / 10 ^ 9 + 1 / 10 ^ 10"
    by (rule cos_near [OF x q]) (simp add: cos_horner_def power2_eq_square)
  then show "\<bar>cos lat_ross - 0.259779857\<bar> \<le> 1 / 10 ^ 8"
    by (simp; argo)
  have "\<bar>sin lat_ross - (- 0.965667865)\<bar> \<le> 1 / 10 ^ 9 + 1 / 10 ^ 9 + 1 / 10 ^ 10"
    by (rule sin_near [OF x q]) (simp add: sin_horner_def power2_eq_square)
  then show "\<bar>sin lat_ross - (- 0.965667865)\<bar> \<le> 1 / 10 ^ 8"
    by (simp; argo)
qed

lemma cos_angle_sunrise: "\<bar>cos angle_sunrise - (- 0.01453808)\<bar> \<le> 1 / 10 ^ 8"
proof -
  have x: "\<bar>angle_sunrise - 1.585334919\<bar> \<le> 1 / 10 ^ 9"
    by (simp add: angle_sunrise_def math_pi_def abs_le_iff)
  have q: "\<bar>1.585334919 :: real\<bar> \<le> 8 / 5" by simp
  have "\<bar>cos angle_sunrise - (- 0.01453808)\<bar> \<le> 1 / 10 ^ 9 + 1 / 10 ^ 9 + 1 / 10 ^ 10"
    by (rule cos_near [OF x q]) (simp add: cos_horner_def power2_eq_square)
  then show ?thesis
    by (simp; argo)
qed

lemma cos_cos_ross:
  "\<bar>cos lat_ross * cos (decl_of gama_nov2) - 0.251854327\<bar> \<le> 2 / 10 ^ 8"
  using mult_near [OF trig_lat(1) trig_decl(1)] by (simp; argo)

lemma sin_sin_ross:
  "\<bar>sin lat_ross * sin (decl_of gama_nov2) - 0.236709799\<bar> \<le> 4 / 10 ^ 8"
  using mult_near [OF trig_lat(2) trig_decl(2)] by (simp; argo)

text \<open>The cosines of the two bounding hour angles.\<close>

lemma cos_theta_lo: "\<bar>cos theta_lo - (- 0.997450133)\<bar> \<le> 1 / 10 ^ 8"
proof -
  have x: "\<bar>(pi - theta_lo) - 0.0714276\<bar> \<le> 2 / 10 ^ 9"
    using pi_bounds by (simp add: theta_lo_def math_pi_def; argo)
  have q: "\<bar>0.0714276 :: real\<bar> \<le> 8 / 5" by simp
  have "\<bar>cos (pi - theta_lo) - 0.997450133\<bar> \<le> 2 / 10 ^ 9 + 1 / 10 ^ 9 + 1 / 10 ^ 10"
    by (rule cos_near [OF x q]) (simp add: cos_horner_def power2_eq_square)
  then show ?thesis
    by (simp; argo)
qed

lemma cos_theta_hi: "\<bar>cos theta_hi - (- 0.997675367)\<bar> \<le> 1 / 10 ^ 8"
proof -
  have x: "\<bar>(pi - theta_hi) - 0.06819874\<bar> \<le> 2 / 10 ^ 9"
    using pi_bounds by (simp add: theta_hi_def math_pi_def; argo)
  have q: "\<bar>0.06819874 :: real\<bar> \<le> 8 / 5" by simp
  have "\<bar>cos (pi - theta_hi) - 0.997675367\<bar> \<le> 2 / 10 ^ 9 + 1 / 10 ^ 9 + 1 / 10 ^ 10"
    by (rule cos_near [OF x q]) (simp add: cos_horner_def power2_eq_square)
  then show ?thesis
    by (simp; argo)
qed

lemma theta_range: "0 \<le> theta_lo" "theta_lo \<le> theta_hi" "theta_hi \<le> pi"
  using pi_bounds by (simp_all add: theta_lo_def theta_hi_def math_pi_def)

lemma ross_cos_pos: "0 < cos lat_ross" "0 < cos (decl_of gama_nov2)"
proof -
  show "0 < cos lat_ross" using trig_lat(1) by (simp; argo)
  show "0 < cos (decl_of gama_nov2)" using trig_decl(1) by (simp; argo)
qed

text \<open>The argument of \<open>math.acos\<close> lies between them, hence so does the hour angle.\<close>

lemma acos_arg_quotient:
  assumes "0 < cos L" "0 < cos D"
  shows "acos_arg sa L D = (cos sa - sin L * sin D) / (cos L * cos D)"
  using assms by (simp add: acos_arg_def tan_def field_simps)

lemma ross_acos_arg:
  "cos theta_hi \<le> acos_arg angle_sunrise lat_ross (decl_of gama_nov2)"
  "acos_arg angle_sunrise lat_ross (decl_of gama_nov2) \<le> cos theta_lo"
proof -
  define P where "P = cos lat_ross * cos (decl_of gama_nov2)"
  define S where "S = sin lat_ross * sin (decl_of gama_nov2)"
  define N where "N = cos angle_sunrise - S"
  have P: "\<bar>P - 0.251854327\<bar> \<le> 2 / 10 ^ 8"
    unfolding P_def by (rule cos_cos_ross)
  have S: "\<bar>S - 0.236709799\<bar> \<le> 4 / 10 ^ 8"
    unfolding S_def by (rule sin_sin_ross)
  have Ppos: "0 < P" using P by (simp; argo)
  have Plo: "0.251854307 \<le> P" using P by (simp; argo)
  have Phi: "P \<le> 0.251854347" using P by (simp; argo)
  have N1: "- 0.251247929 \<le> N"
    unfolding N_def using S cos_angle_sunrise by (simp; argo)
  have N2: "N \<le> - 0.251247829"
    unfolding N_def using S cos_angle_sunrise by (simp; argo)
  have arg: "acos_arg angle_sunrise lat_ross (decl_of gama_nov2) = N / P"
    unfolding N_def S_def P_def using ross_cos_pos by (rule acos_arg_quotient)
  have hi: "cos theta_hi \<le> - 0.997675357"
    using cos_theta_hi by (simp; argo)
  have lo: "- 0.997450143 \<le> cos theta_lo"
    using cos_theta_lo by (simp; argo)
  have "cos theta_hi * P \<le> - 0.997675357 * P"
    using hi Ppos by (intro mult_right_mono) simp_all
  also have "\<dots> \<le> - 0.997675357 * 0.251854307"
    using Plo by simp
  also have "\<dots> \<le> N"
    using N1 by simp
  finally have "cos theta_hi \<le> N / P"
    using Ppos by (simp add: le_divide_eq)
  then show "cos theta_hi \<le> acos_arg angle_sunrise lat_ross (decl_of gama_nov2)"
    by (simp only: arg)
  have "N \<le> - 0.997450143 * 0.251854347"
    using N2 by simp
  also have "\<dots> \<le> - 0.997450143 * P"
    using Phi by simp
  also have "\<dots> \<le> cos theta_lo * P"
    using lo Ppos by (intro mult_right_mono) simp_all
  finally have "N / P \<le> cos theta_lo"
    using Ppos by (simp add: divide_le_eq)
  then show "acos_arg angle_sunrise lat_ross (decl_of gama_nov2) \<le> cos theta_lo"
    by (simp only: arg)
qed

lemma ross_arccos:
  "theta_lo \<le> arccos (acos_arg angle_sunrise lat_ross (decl_of gama_nov2))"
  "arccos (acos_arg angle_sunrise lat_ross (decl_of gama_nov2)) \<le> theta_hi"
proof -
  let ?x = "acos_arg angle_sunrise lat_ross (decl_of gama_nov2)"
  have r: "0 \<le> theta_lo" "theta_lo \<le> pi" "0 \<le> theta_hi" "theta_hi \<le> pi"
    using theta_range by linarith+
  have "arccos (cos theta_lo) \<le> arccos ?x"
    using ross_acos_arg ross_acos_arg(1) cos_ge_minus_one [of theta_hi] cos_le_one [of theta_lo]
    by (intro arccos_le_arccos) linarith+
  then show "theta_lo \<le> arccos ?x"
    using r by (simp add: arccos_cos)
  have "arccos ?x \<le> arccos (cos theta_hi)"
    using ross_acos_arg cos_ge_minus_one [of theta_hi] cos_le_one [of theta_lo]
    by (intro arccos_le_arccos) linarith+
  then show "arccos ?x \<le> theta_hi"
    using r by (simp add: arccos_cos)
qed

lemma ross_hour_angle:
  "703.63 \<le> 720 * arccos (acos_arg angle_sunrise lat_ross (decl_of gama_nov2)) / math_pi"
  "720 * arccos (acos_arg angle_sunrise lat_ross (decl_of gama_nov2)) / math_pi \<le> 704.37"
proof -
  let ?t = "arccos (acos_arg angle_sunrise lat_ross (decl_of gama_nov2))"
  have mp: "0 < math_pi" by (simp add: math_pi_def)
  have "703.63 = 720 * theta_lo / math_pi"
    using mp by (simp add: theta_lo_def)
  also have "\<dots> \<le> 720 * ?t / math_pi"
    using ross_arccos(1) mp by (simp add: divide_right_mono)
  finally show "703.63 \<le> 720 * ?t / math_pi" .
  have "720 * ?t / math_pi \<le> 720 * theta_hi / math_pi"
    using ross_arccos(2) mp by (simp add: divide_right_mono)
  also have "\<dots> = 704.37"
    using mp by (simp add: theta_hi_def)
  finally show "720 * ?t / math_pi \<le> 704.37" .
qed

text \<open>The two results of the solver: sunrise at minute -720, sunset at minute 687.\<close>

lemma ross_minutes:
  "py_int (720 - 4 * 180
           - 720 * arccos (acos_arg angle_sunrise lat_ross (decl_of gama_nov2)) / math_pi
           - eqtime_of gama_nov2) = - 720"
  "py_int (720 - 4 * 180
           + 720 * arccos (acos_arg angle_sunrise lat_ross (decl_of gama_nov2)) / math_pi
           - eqtime_of gama_nov2) = 687"
proof -
  define h where "h = 720 * arccos (acos_arg angle_sunrise lat_ross (decl_of gama_nov2)) / math_pi"
  define e where "e = eqtime_of gama_nov2"
  have h: "703.63 \<le> h" "h \<le> 704.37"
    unfolding h_def by (rule ross_hour_angle)+
  have e: "\<bar>e - 16.379094\<bar> \<le> 1 / 10 ^ 5"
    unfolding e_def by (rule eqtime_nov2)
  have "- 721 < 720 - 4 * 180 - h - e"
    using h e by (simp; argo)
  moreover have "720 - 4 * 180 - h - e \<le> - 720"
    using h e by (simp; argo)
  ultimately have "py_int (720 - 4 * 180 - h - e) = - 720"
    unfolding py_int_def by (simp add: ceiling_eq_iff)
  then show "py_int (720 - 4 * 180
           - 720 * arccos (acos_arg angle_sunrise lat_ross (decl_of gama_nov2)) / math_pi
           - eqtime_of gama_nov2) = - 720"
    by (simp only: h_def e_def)
  have "687 \<le> 720 - 4 * 180 + h - e"
    using h e by (simp; argo)
  moreover have "720 - 4 * 180 + h - e < 688"
    using h e by (simp; argo)
  ultimately have "py_int (720 - 4 * 180 + h - e) = 687"
    unfolding py_int_def by (simp add: floor_eq_iff)
  then show "py_int (720 - 4 * 180
           + 720 * arccos (acos_arg angle_sunrise lat_ross (decl_of gama_nov2)) / math_pi
           - eqtime_of gama_nov2) = 687"
    by (simp only: h_def e_def)
qed

section \<open>The value returned when there is no crossing\<close>

lemma ross_sea_parameters:
  "gama_of ross_sea_instance = gama_nov2"
  "math_pi * latitude (location ross_sea_instance) / 180 = lat_ross"
  "longitude (location ross_sea_instance) = 180"
  "math_pi * 90.833 / 180 = angle_sunrise"
  by (simp_all add: gama_of_def gday_of_year_def year_of_def days_before_year_def Let_def
        ross_sea_instance_def gama_nov2_def lat_ross_def angle_sunrise_def)

lemma crossing_exists_ross_sea: "crossing_exists ross_sea_instance 90.833"
proof -
  have "cos lat_ross * cos (decl_of gama_nov2) \<noteq> 0"
    using ross_cos_pos by simp
  moreover have "- 1 \<le> acos_arg angle_sunrise lat_ross (decl_of gama_nov2)"
    using ross_acos_arg(1) cos_ge_minus_one [of theta_hi] by linarith
  moreover have "acos_arg angle_sunrise lat_ross (decl_of gama_nov2) \<le> 1"
    using ross_acos_arg(2) cos_le_one [of theta_lo] by linarith
  ultimately show ?thesis
    unfolding crossing_exists_def Let_def ross_sea_parameters by simp
qed

lemma get_utc_sun_time_deg_ross_sea:
  "get_utc_sun_time_deg ross_sea_instance 90.833 = Inr (- 720, 687)"
  unfolding get_utc_sun_time_deg_crossing [OF crossing_exists_ross_sea] ross_sea_parameters
  using ross_minutes by simp




section \<open>Two longitudes with the same minute\<close>

lemma ross_sea_west_parameters:
  "date ross_sea_west = date ross_sea_instance"
  "latitude (location ross_sea_west) = latitude (location ross_sea_instance)"
  "longitude (location ross_sea_west) = 179.998"
  by (simp_all add: ross_sea_west_def)

lemma crossing_exists_ross_sea_west: "crossing_exists ross_sea_west 90.833"
  using crossing_exists_cong(1) [OF ross_sea_west_parameters(1,2)] crossing_exists_ross_sea
  by simp

lemma ross_minutes_west:
  "py_int (720 - 4 * 179.998
           - 720 * arccos (acos_arg angle_sunrise lat_ross (decl_of gama_nov2)) / math_pi
           - eqtime_of gama_nov2) = - 720"
  "py_int (720 - 4 * 179.998
           + 720 * arccos (acos_arg angle_sunrise lat_ross (decl_of gama_nov2)) / math_pi
           - eqtime_of gama_nov2) = 687"
proof -
  define h where "h = 720 * arccos (acos_arg angle_sunrise lat_ross (decl_of gama_nov2)) / math_pi"
  define e where "e = eqtime_of gama_nov2"
  have h: "703.63 \<le> h" "h \<le> 704.37"
    unfolding h_def by (rule ross_hour_angle)+
  have e: "\<bar>e - 16.379094\<bar> \<le> 1 / 10 ^ 5"
    unfolding e_def by (rule eqtime_nov2)
  have "- 721 < 720 - 4 * 179.998 - h - e"
    using h e by (simp; argo)
  moreover have "720 - 4 * 179.998 - h - e \<le> - 720"
    using h e by (simp; argo)
  ultimately have "py_int (720 - 4 * 179.998 - h - e) = - 720"
    unfolding py_int_def by (simp add: ceiling_eq_iff)
  then show "py_int (720 - 4 * 179.998
           - 720 * arccos (acos_arg angle_sunrise lat_ross (decl_of gama_nov2)) / math_pi
           - eqtime_of gama_nov2) = - 720"
    by (simp only: h_def e_def)
  have "687 \<le> 720 - 4 * 179.998 + h - e"
    using h e by (simp; argo)
  moreover have "720 - 4 * 179.998 + h - e < 688"
    using h e by (simp; argo)
  ultimately have "py_int (720 - 4 * 179.998 + h - e) = 687"
    unfolding py_int_def by (simp add: floor_eq_iff)
  then show "py_int (720 - 4 * 179.998
           + 720 * arccos (acos_arg angle_sunrise lat_ross (decl_of gama_nov2)) / math_pi
           - eqtime_of gama_nov2) = 687"
    by (simp only: h_def e_def)
qed

lemma get_utc_sun_time_deg_ross_sea_west:
  "get_utc_sun_time_deg ross_sea_west 90.833 = Inr (- 720, 687)"
proof -
  have g: "gama_of ross_sea_west = gama_nov2"
    using crossing_exists_cong(2) [OF ross_sea_west_parameters(1,2)] ross_sea_parameters(1)
    by simp
  have l: "math_pi * latitude (location ross_sea_west) / 180 = lat_ross"
    using ross_sea_parameters(2) by (simp only: ross_sea_west_parameters(2))
  show ?thesis
    unfolding get_utc_sun_time_deg_crossing [OF crossing_exists_ross_sea_west] g l
      ross_sea_west_parameters(3) ross_sea_parameters(4)
    using ross_minutes_west by simp
qed

text \<open>
  On the equator on 2019-01-02 the crossing of the altitude of sunrise is clear of the
  limits: the divisor is the cosine of the declination, above 0.9, and the argument of
  \<open>math.acos\<close> is below 0.03 in absolute value.
\<close>

lemma cos_decl_january: "9 / 10 \<le> cos (- 402449 / 1000000 :: real)"
proof -
  have q: "\<bar>- 402449 / 1000000 :: real\<bar> \<le> 8 / 5" by simp
  have "\<bar>cos (- 402449 / 1000000 :: real) - cos_horner ((- 402449 / 1000000)\<^sup>2)\<bar> \<le> 1 / 10 ^ 10"
    by (rule cos_horner_approx [OF q])
  moreover have "92 / 100 \<le> cos_horner ((- 402449 / 1000000 :: real)\<^sup>2)"
    by (simp add: cos_horner_def power2_eq_square)
  ultimately show ?thesis by (simp; argo)
qed

lemma crossing_clear_january_equator:
  "crossing_clear (january_instance 0 lon) 90.833"
proof -
  let ?D = "- 402449 / 1000000 :: real"
  have cD: "9 / 10 \<le> cos ?D" by (rule cos_decl_january)
  have cs: "\<bar>cos angle_sunrise\<bar> \<le> 2 / 100"
    using cos_angle_sunrise by (simp; argo)
  have "\<bar>cos angle_sunrise / cos ?D\<bar> = \<bar>cos angle_sunrise\<bar> / cos ?D"
    using cD by (simp add: abs_divide del: cos_minus)
  also have "\<dots> \<le> 999 / 1000"
    using cD cs by (simp add: divide_le_eq del: cos_minus; argo)
  finally have x: "\<bar>cos angle_sunrise / cos ?D\<bar> \<le> 999 / 1000" .
  have lat: "latitude (location (january_instance 0 lon)) = 0"
    by (simp add: january_instance_def)
  show ?thesis
    unfolding crossing_clear_def Let_def lat gama_of_january decl_of_zero
      ross_sea_parameters(4) acos_arg_def
    using cD x by (simp del: cos_minus)
qed

text \<open>
  There one degree of longitude to the east makes sunrise and sunset strictly
  earlier.
\<close>

theorem sun_times_not_later_with_longitude_witness:
  "crossing_exists (january_instance 0 0) 90.833
   \<and> crossing_clear (january_instance 0 0) 90.833
   \<and> (\<exists>r1 s1 r2 s2.
         get_utc_sun_time_deg (january_instance 0 0) 90.833 = Inr (r1, s1)
         \<and> get_utc_sun_time_deg (january_instance 0 1) 90.833 = Inr (r2, s2)
         \<and> r2 < r1 \<and> s2 < s1)"
proof -
  have "date (january_instance 0 1) = date (january_instance 0 0)"
    "latitude (location (january_instance 0 1)) = latitude (location (january_instance 0 0))"
    "- 180 \<le> longitude (location (january_instance 0 0))"
    "longitude (location (january_instance 0 0)) \<le> longitude (location (january_instance 0 1))"
    "longitude (location (january_instance 0 1)) \<le> 180"
    "longitude (location (january_instance 0 0)) + 1 \<le> longitude (location (january_instance 0 1))"
    by (simp_all add: january_instance_def)
  with sun_times_not_later_with_longitude [OF crossing_exists_january_equator [of 0],
      of "january_instance 0 1"]
  show ?thesis
    using crossing_exists_january_equator [of 0] crossing_clear_january_equator [of 0]
    by blast
qed

text \<open>
  Claim C7, as stated, fails: a larger longitude does not always make the two event
  times earlier.  In the Ross Sea on 2019-11-02, with the latitude and the altitude of
  sunrise fixed and a crossing existing, the longitudes 179.998 and 180 degrees give
  the same sunrise and the same sunset, -720 and 687: the two longitudes are 0.008
  minutes apart, and the solver returns whole minutes.
\<close>

theorem nearby_longitudes_share_the_minute:
  "date ross_sea_instance = date ross_sea_west
   \<and> latitude (location ross_sea_instance) = latitude (location ross_sea_west)
   \<and> longitude (location ross_sea_west) = 179.998
   \<and> longitude (location ross_sea_instance) = 180
   \<and> crossing_exists ross_sea_west 90.833
   \<and> get_utc_sun_time_deg ross_sea_west 90.833 = Inr (- 720, 687)
   \<and> get_utc_sun_time_deg ross_sea_instance 90.833 = Inr (- 720, 687)"
  using ross_sea_west_parameters ross_sea_parameters(3) crossing_exists_ross_sea_west
    get_utc_sun_time_deg_ross_sea_west get_utc_sun_time_deg_ross_sea
  by simp

end
